theory Spec2Isabelle
  imports Complex_Main "HOL-Library.Word"
begin

section \<open>The smoother cost function of smac\_planner\<close>

text \<open>
  This theory embeds \<^verbatim>\<open>smac_planner/smoother_cost_function.hpp\<close>: the class
  \<^verbatim>\<open>UnconstrainedSmootherCostFunction\<close>, its \<^verbatim>\<open>Evaluate\<close> sweep over the
  interior points of a path, the five cost terms with their Jacobians, and the
  finite-difference helper \<^verbatim>\<open>getCostmapGradient\<close>.
\<close>

subsection \<open>The C++ type double\<close>

text \<open>
  A \<^verbatim>\<open>double\<close> is a finite number, one of the two infinities, or NaN. The
  operators \<open>+\<close>, \<open>-\<close>, \<open>*\<close> and \<open>/\<close> on finite numbers are the exact operations on
  the reals: rounding and the sign of zero are not modelled (a division of a nonzero
  number by zero takes the zero as positive), and these four operators keep a finite
  result finite. The overflow of a finite result to an infinity is modelled where a test
  of the source looks for it, in the squared length of a vector (\<open>squaredNorm\<close> below,
  read by the \<^verbatim>\<open>std::isinf\<close> test of line 265). The special values propagate as
  IEEE 754 prescribes: every operation on NaN is NaN, \<open>\<infinity> - \<infinity>\<close>, \<open>0 * \<infinity>\<close>,
  \<open>0 / 0\<close> and \<open>\<infinity> / \<infinity>\<close> are NaN, and every comparison with NaN is false.
\<close>

datatype double = Fin real | PInf | NInf | NaN

instantiation double :: "{zero, one, plus, minus, uminus, times, inverse, abs, ord, numeral}"
begin

definition zero_double :: double where
  "zero_double = Fin 0"

definition one_double :: double where
  "one_double = Fin 1"

fun plus_double :: "double \<Rightarrow> double \<Rightarrow> double" where
  "Fin a + Fin b = Fin (a + b)"
| "NaN + _ = NaN"
| "_ + NaN = NaN"
| "PInf + NInf = NaN"
| "NInf + PInf = NaN"
| "PInf + _ = PInf"
| "_ + PInf = PInf"
| "NInf + _ = NInf"
| "_ + NInf = NInf"

fun uminus_double :: "double \<Rightarrow> double" where
  "- Fin a = Fin (- a)"
| "- PInf = NInf"
| "- NInf = PInf"
| "- NaN = NaN"

definition minus_double :: "double \<Rightarrow> double \<Rightarrow> double" where
  "minus_double a b = a + (- b)"

fun times_double :: "double \<Rightarrow> double \<Rightarrow> double" where
  "Fin a * Fin b = Fin (a * b)"
| "NaN * _ = NaN"
| "_ * NaN = NaN"
| "PInf * Fin b = (if b = 0 then NaN else if 0 < b then PInf else NInf)"
| "NInf * Fin b = (if b = 0 then NaN else if 0 < b then NInf else PInf)"
| "Fin a * PInf = (if a = 0 then NaN else if 0 < a then PInf else NInf)"
| "Fin a * NInf = (if a = 0 then NaN else if 0 < a then NInf else PInf)"
| "PInf * PInf = PInf"
| "PInf * NInf = NInf"
| "NInf * PInf = NInf"
| "NInf * NInf = PInf"

fun divide_double :: "double \<Rightarrow> double \<Rightarrow> double" where
  "divide_double (Fin a) (Fin b) =
     (if b \<noteq> 0 then Fin (a / b)
      else if a = 0 then NaN else if 0 < a then PInf else NInf)"
| "divide_double NaN _ = NaN"
| "divide_double _ NaN = NaN"
| "divide_double (Fin a) PInf = Fin 0"
| "divide_double (Fin a) NInf = Fin 0"
| "divide_double PInf (Fin b) = (if 0 \<le> b then PInf else NInf)"
| "divide_double NInf (Fin b) = (if 0 \<le> b then NInf else PInf)"
| "divide_double PInf _ = NaN"
| "divide_double NInf _ = NaN"

definition inverse_double :: "double \<Rightarrow> double" where
  "inverse_double a = Fin 1 div a"

fun abs_double :: "double \<Rightarrow> double" where
  "\<bar>Fin a\<bar> = Fin \<bar>a\<bar>"
| "\<bar>PInf\<bar> = PInf"
| "\<bar>NInf\<bar> = PInf"
| "\<bar>NaN\<bar> = NaN"

fun less_double :: "double \<Rightarrow> double \<Rightarrow> bool" where
  "Fin a < Fin b \<longleftrightarrow> a < b"
| "NaN < _ \<longleftrightarrow> False"
| "_ < NaN \<longleftrightarrow> False"
| "_ < NInf \<longleftrightarrow> False"
| "PInf < _ \<longleftrightarrow> False"
| "NInf < _ \<longleftrightarrow> True"
| "_ < PInf \<longleftrightarrow> True"

fun less_eq_double :: "double \<Rightarrow> double \<Rightarrow> bool" where
  "Fin a \<le> Fin b \<longleftrightarrow> a \<le> b"
| "NaN \<le> _ \<longleftrightarrow> False"
| "_ \<le> NaN \<longleftrightarrow> False"
| "NInf \<le> _ \<longleftrightarrow> True"
| "_ \<le> PInf \<longleftrightarrow> True"
| "_ \<le> NInf \<longleftrightarrow> False"
| "PInf \<le> _ \<longleftrightarrow> False"

instance
proof
  fix a b c :: double
  show "a + b + c = a + (b + c)"
    by (cases a; cases b; cases c) simp_all
qed

end

text \<open>
  The operator \<^verbatim>\<open>==\<close> of C++ on doubles: NaN is equal to nothing, itself included;
  \<^verbatim>\<open>a != b\<close> is its negation.
\<close>

definition feq :: "double \<Rightarrow> double \<Rightarrow> bool" where
  "feq a b \<longleftrightarrow> a \<noteq> NaN \<and> b \<noteq> NaN \<and> a = b"

text \<open>\<^verbatim>\<open>std::isnan\<close> and \<^verbatim>\<open>std::isinf\<close>.\<close>

definition isnan :: "double \<Rightarrow> bool" where
  "isnan a \<longleftrightarrow> a = NaN"

definition isinf :: "double \<Rightarrow> bool" where
  "isinf a \<longleftrightarrow> a = PInf \<or> a = NInf"

text \<open>
  \<^verbatim>\<open>sqrt\<close>, \<^verbatim>\<open>acos\<close>, \<^verbatim>\<open>cos\<close>, \<^verbatim>\<open>fabs\<close> and \<^verbatim>\<open>hypot\<close> of \<^verbatim>\<open><cmath>\<close>: outside
  its domain a function returns NaN; \<^verbatim>\<open>hypot\<close> of an infinity is \<open>+\<infinity>\<close> even when
  the other argument is NaN.
\<close>

fun dsqrt :: "double \<Rightarrow> double" where
  "dsqrt (Fin a) = (if a < 0 then NaN else Fin (sqrt a))"
| "dsqrt PInf = PInf"
| "dsqrt NInf = NaN"
| "dsqrt NaN = NaN"

fun dacos :: "double \<Rightarrow> double" where
  "dacos (Fin a) = (if - 1 \<le> a \<and> a \<le> 1 then Fin (arccos a) else NaN)"
| "dacos _ = NaN"

fun dcos :: "double \<Rightarrow> double" where
  "dcos (Fin a) = Fin (cos a)"
| "dcos _ = NaN"

definition fabs :: "double \<Rightarrow> double" where
  "fabs a = \<bar>a\<bar>"

fun hypot :: "double \<Rightarrow> double \<Rightarrow> double" where
  "hypot (Fin a) (Fin b) = Fin (sqrt (a * a + b * b))"
| "hypot PInf _ = PInf"
| "hypot NInf _ = PInf"
| "hypot _ PInf = PInf"
| "hypot _ NInf = PInf"
| "hypot _ _ = NaN"

text \<open>\<^verbatim>\<open>std::pow(x, 2)\<close>, the only use of \<^verbatim>\<open>std::pow\<close> in the file.\<close>

definition pow_2 :: "double \<Rightarrow> double" where
  "pow_2 x = x * x"

text \<open>
  The largest finite \<^verbatim>\<open>double\<close>, \<^verbatim>\<open>DBL_MAX\<close> of \<^verbatim>\<open><cfloat>\<close>, which is
  \<open>2\<^sup>1\<^sup>0\<^sup>2\<^sup>4 - 2\<^sup>9\<^sup>7\<^sup>1\<close>, and what a \<^verbatim>\<open>double\<close> holds when a result is stored
  in it: a finite result beyond the largest finite \<^verbatim>\<open>double\<close> is an infinity.
\<close>

definition DBL_MAX :: real where
  "DBL_MAX = (2 ^ 53 - 1) * 2 ^ 971"

fun overflow :: "double \<Rightarrow> double" where
  "overflow (Fin a) = (if DBL_MAX < a then PInf else if a < - DBL_MAX then NInf else Fin a)"
| "overflow PInf = PInf"
| "overflow NInf = NInf"
| "overflow NaN = NaN"

declare overflow.simps(1) [simp del]

subsection \<open>Eigen::Vector2d\<close>

text \<open>
  A \<^verbatim>\<open>Eigen::Vector2d\<close> is a pair of doubles; \<^verbatim>\<open>v[0]\<close> is \<open>fst v\<close> and \<^verbatim>\<open>v[1]\<close>
  is \<open>snd v\<close>. \<^verbatim>\<open>squaredNorm()\<close> is the sum of the squares of the two components,
  which is \<open>+\<infinity>\<close> when a square or the sum exceeds the largest finite \<^verbatim>\<open>double\<close>
  (the squares are not negative, so the sum exceeds it whenever a square does, and a
  difference of coordinates that exceeds it has a square that does).
  \<^verbatim>\<open>norm()\<close> is the square root of \<^verbatim>\<open>squaredNorm()\<close>, so the length of a segment
  with finite end points is \<open>+\<infinity>\<close> when its square is too large for a \<^verbatim>\<open>double\<close>.
\<close>

type_synonym Vector2d = "double \<times> double"

definition dot :: "Vector2d \<Rightarrow> Vector2d \<Rightarrow> double" where
  "dot a b = fst a * fst b + snd a * snd b"

definition squaredNorm :: "Vector2d \<Rightarrow> double" where
  "squaredNorm a = overflow (fst a * fst a + snd a * snd a)"

definition norm2d :: "Vector2d \<Rightarrow> double" where
  "norm2d a = dsqrt (squaredNorm a)"

definition vsub :: "Vector2d \<Rightarrow> Vector2d \<Rightarrow> Vector2d" where
  "vsub a b = (fst a - fst b, snd a - snd b)"

definition vneg :: "Vector2d \<Rightarrow> Vector2d" where
  "vneg a = (- fst a, - snd a)"

definition smult :: "double \<Rightarrow> Vector2d \<Rightarrow> Vector2d" where
  "smult c a = (c * fst a, c * snd a)"

definition vmuls :: "Vector2d \<Rightarrow> double \<Rightarrow> Vector2d" where
  "vmuls a c = (fst a * c, snd a * c)"

definition vdivs :: "Vector2d \<Rightarrow> double \<Rightarrow> Vector2d" where
  "vdivs a c = (fst a / c, snd a / c)"

subsection \<open>Constants and collaborators declared outside the file\<close>

text \<open>\<^verbatim>\<open>#define EPSILON 0.0001\<close>\<close>

definition EPSILON :: double where
  "EPSILON = Fin (1 / 10000)"

text \<open>
  The four cost values \<^verbatim>\<open>FREE\<close>, \<^verbatim>\<open>UNKNOWN\<close>, \<^verbatim>\<open>INSCRIBED\<close> and
  \<^verbatim>\<open>MAX_NON_OBSTACLE\<close> come from \<^verbatim>\<open>smac_planner/types.hpp\<close>, which is not among
  the sources: they are parameters of the model, finite numbers compared with a
  \<^verbatim>\<open>double\<close>.
\<close>

record CostValues =
  FREE :: real
  UNKNOWN :: real
  INSCRIBED :: real
  MAX_NON_OBSTACLE :: real

text \<open>
  \<^verbatim>\<open>MinimalCostmap\<close> comes from \<^verbatim>\<open>smac_planner/minimal_costmap.hpp\<close>, which is not
  among the sources either. The cost function uses four of its members; the model takes
  them as they are called: \<^verbatim>\<open>sizeX()\<close>, \<^verbatim>\<open>sizeY()\<close>, \<^verbatim>\<open>getCost(mx, my)\<close> on
  \<^verbatim>\<open>unsigned int\<close> coordinates, and \<^verbatim>\<open>worldToMap(wx, wy, mx, my)\<close>, which returns
  false or sets \<^verbatim>\<open>mx\<close> and \<^verbatim>\<open>my\<close> and returns true.
\<close>

type_synonym uint = "32 word"

record MinimalCostmap =
  sizeX :: uint
  sizeY :: uint
  getCost :: "uint \<Rightarrow> uint \<Rightarrow> double"
  worldToMap :: "double \<Rightarrow> double \<Rightarrow> (uint \<times> uint) option"

subsection \<open>The caches\<close>

text \<open>
  \<^verbatim>\<open>struct CurvatureComputations\<close>: the constructor sets \<^verbatim>\<open>valid\<close> to true and
  leaves every other member as it finds it in memory. The model takes that memory as an
  argument.
\<close>

record CurvatureComputations =
  valid :: bool
  delta_xi :: Vector2d
  delta_xi_p :: Vector2d
  delta_xi_norm :: double
  delta_xi_p_norm :: double
  delta_phi_i :: double
  turning_rad :: double
  ki_minus_kmax :: double

definition CurvatureComputations_ctor :: "CurvatureComputations \<Rightarrow> CurvatureComputations" where
  "CurvatureComputations_ctor uninitialized = uninitialized\<lparr>valid := True\<rparr>"

definition isValid :: "CurvatureComputations \<Rightarrow> bool" where
  "isValid c = valid c"

text \<open>\<^verbatim>\<open>struct CostComputations\<close>: every member starts at zero.\<close>

record CostComputations =
  cost :: double
  gradx :: double
  grady :: double

definition CostComputations_ctor :: CostComputations where
  "CostComputations_ctor = \<lparr>cost = 0, gradx = 0, grady = 0\<rparr>"

subsection \<open>The cost function object\<close>

text \<open>
  The members of \<^verbatim>\<open>UnconstrainedSmootherCostFunction\<close> (\<^verbatim>\<open>_num_params\<close>,
  \<^verbatim>\<open>_Wsmooth\<close>, ...) without their leading underscore. \<^verbatim>\<open>_num_params\<close> is an
  \<^verbatim>\<open>int\<close> in the source; the model takes a point count that is not negative.
\<close>

record UnconstrainedSmootherCostFunction =
  num_params :: nat
  Wsmooth :: double
  Wcurve :: double
  Wcollision :: double
  Wcost :: double
  Wchange :: double
  max_turning_radius :: double
  costmap :: MinimalCostmap

definition UnconstrainedSmootherCostFunction_ctor ::
    "nat \<Rightarrow> MinimalCostmap \<Rightarrow> UnconstrainedSmootherCostFunction" where
  "UnconstrainedSmootherCostFunction_ctor num_points cm =
     \<lparr>num_params = 2 * num_points,
      Wsmooth = 200000,
      Wcurve = 2,
      Wcollision = 1,
      Wcost = Fin (2 / 10),
      Wchange = 1,
      max_turning_radius = 10,
      costmap = cm\<rparr>"

definition NumParameters :: "UnconstrainedSmootherCostFunction \<Rightarrow> nat" where
  "NumParameters self = num_params self"

subsection \<open>The cost terms and their Jacobians\<close>

text \<open>
  A parameter \<^verbatim>\<open>double & r\<close> that a function adds to is an argument and a result of
  its model; so are \<^verbatim>\<open>j0\<close> and \<^verbatim>\<open>j1\<close>, as a pair, and a cache that the function
  writes. Every \<^verbatim>\<open>return\<close> of the source is one branch.
\<close>

definition addSmoothingResidual ::
    "double \<Rightarrow> Vector2d \<Rightarrow> Vector2d \<Rightarrow> Vector2d \<Rightarrow> double \<Rightarrow> double" where
  "addSmoothingResidual weight pt pt_p pt_m r =
     r + weight * (
       dot pt_p pt_p
       - 4 * dot pt_p pt
       + 2 * dot pt_p pt_m
       + 4 * dot pt pt
       - 4 * dot pt pt_m
       + dot pt_m pt_m)"

definition addSmoothingJacobian ::
    "double \<Rightarrow> Vector2d \<Rightarrow> Vector2d \<Rightarrow> Vector2d \<Rightarrow> double \<times> double \<Rightarrow> double \<times> double" where
  "addSmoothingJacobian weight pt pt_p pt_m j =
     (fst j + weight * (- 4 * fst pt_m + 8 * fst pt - 4 * fst pt_p),
      snd j + weight * (- 4 * snd pt_m + 8 * snd pt - 4 * snd pt_p))"

definition addMaxCurvatureResidual ::
    "UnconstrainedSmootherCostFunction \<Rightarrow> double \<Rightarrow> Vector2d \<Rightarrow> Vector2d \<Rightarrow> Vector2d \<Rightarrow>
     CurvatureComputations \<Rightarrow> double \<Rightarrow> CurvatureComputations \<times> double" where
  "addMaxCurvatureResidual self weight pt pt_p pt_m curvature_params r =
     (let c1 = curvature_params\<lparr>delta_xi := (fst pt - fst pt_m, snd pt - snd pt_m)\<rparr>;
          c2 = c1\<lparr>delta_xi_p := (fst pt_p - fst pt, snd pt_p - snd pt)\<rparr>;
          c3 = c2\<lparr>delta_xi_norm := norm2d (delta_xi c2)\<rparr>;
          c4 = c3\<lparr>delta_xi_p_norm := norm2d (delta_xi_p c3)\<rparr>
      in
      if delta_xi_norm c4 < EPSILON \<or> delta_xi_p_norm c4 < EPSILON \<or>
         isnan (delta_xi_p_norm c4) \<or> isnan (delta_xi_norm c4) \<or>
         isinf (delta_xi_p_norm c4) \<or> isinf (delta_xi_norm c4)
      then (c4\<lparr>valid := False\<rparr>, r)
      else
        let delta_xi_by_xi_p = delta_xi_norm c4 * delta_xi_p_norm c4;
            projection = dot (delta_xi c4) (delta_xi_p c4) / delta_xi_by_xi_p;
            projection' =
              (if fabs (1 - projection) < EPSILON \<or> fabs (projection + 1) < EPSILON
               then 1 else projection);
            c5 = c4\<lparr>delta_phi_i := dacos projection'\<rparr>;
            c6 = c5\<lparr>turning_rad := delta_phi_i c5 / delta_xi_norm c5\<rparr>;
            c7 = c6\<lparr>ki_minus_kmax := turning_rad c6 - max_turning_radius self\<rparr>
        in
        if ki_minus_kmax c7 \<le> EPSILON
        then (c7\<lparr>valid := False\<rparr>, r)
        else (c7, r + weight * ki_minus_kmax c7 * ki_minus_kmax c7))"

definition normalizedOrthogonalComplement ::
    "Vector2d \<Rightarrow> Vector2d \<Rightarrow> double \<Rightarrow> double \<Rightarrow> Vector2d" where
  "normalizedOrthogonalComplement a b a_norm b_norm =
     vdivs (vsub a (vdivs (vmuls b (dot a b)) (squaredNorm b))) (a_norm * b_norm)"

definition addMaxCurvatureJacobian ::
    "UnconstrainedSmootherCostFunction \<Rightarrow> double \<Rightarrow> Vector2d \<Rightarrow> Vector2d \<Rightarrow> Vector2d \<Rightarrow>
     CurvatureComputations \<Rightarrow> double \<times> double \<Rightarrow> double \<times> double" where
  "addMaxCurvatureJacobian self weight pt pt_p pt_m curvature_params j =
     (if \<not> isValid curvature_params then j
      else
        let partial_delta_phi_i_wrt_cost_delta_phi_i =
              - 1 / dsqrt (1 - pow_2 (dcos (delta_phi_i curvature_params)));
            ones = (1, 1);
            neg_pt_plus = smult (- 1) pt_p;
            p1 = normalizedOrthogonalComplement pt neg_pt_plus
                   (delta_xi_norm curvature_params) (delta_xi_p_norm curvature_params);
            p2 = normalizedOrthogonalComplement neg_pt_plus pt
                   (delta_xi_norm curvature_params) (delta_xi_p_norm curvature_params);
            u = 2 * ki_minus_kmax curvature_params;
            common_prefix = (- 1 / delta_xi_norm curvature_params) *
                partial_delta_phi_i_wrt_cost_delta_phi_i;
            common_suffix = delta_phi_i curvature_params /
                (delta_xi_norm curvature_params * delta_xi_norm curvature_params);
            jacobian = smult u (vsub (smult common_prefix (vsub (vneg p1) p2))
                                     (smult common_suffix ones))
        in (fst j + weight * fst jacobian, snd j + weight * snd jacobian))"

definition addCollisionResidual ::
    "CostValues \<Rightarrow> double \<Rightarrow> double \<Rightarrow> CostComputations \<Rightarrow> double \<Rightarrow>
     CostComputations \<times> double" where
  "addCollisionResidual cv weight value params r =
     (if value < Fin (INSCRIBED cv) then (params, r)
      else
        let params' = params\<lparr>cost :=
              - 1 * weight * (value * value - 2 * Fin (MAX_NON_OBSTACLE cv) * value
                + Fin (MAX_NON_OBSTACLE cv) * Fin (MAX_NON_OBSTACLE cv))\<rparr>
        in (params', r + cost params'))"

definition getCostmapGradient ::
    "UnconstrainedSmootherCostFunction \<Rightarrow> uint \<Rightarrow> uint \<Rightarrow> CostComputations \<Rightarrow>
     CostComputations" where
  "getCostmapGradient self mx my params =
     (let cm = costmap self;
          right_one = (if mx < sizeX cm then getCost cm (mx + 1) my else 0);
          right_two = (if mx + 1 < sizeX cm then getCost cm (mx + 2) my else 0);
          left_one = (if mx > 0 then getCost cm (mx - 1) my else 0);
          left_two = (if mx - 1 > 0 then getCost cm (mx - 2) my else 0);
          up_one = (if my < sizeY cm then getCost cm mx (my + 1) else 0);
          up_two = (if my + 1 < sizeY cm then getCost cm mx (my + 2) else 0);
          down_one = (if my > 0 then getCost cm mx (my - 1) else 0);
          left_two = (if my - 1 > 0 then getCost cm mx (my - 2) else left_two);
          down_two = 0;
          params1 = params\<lparr>gradx := (8 * up_one - up_two - 8 * down_one + down_two) / 12\<rparr>;
          params2 = params1\<lparr>grady :=
                      (8 * right_one - right_two - 8 * left_one + left_two) / 12\<rparr>;
          grad_mag = hypot (gradx params2) (grady params2)
      in
      if grad_mag > EPSILON
      then params2\<lparr>gradx := gradx params2 / grad_mag, grady := grady params2 / grad_mag\<rparr>
      else params2)"

definition addCollisionJacobian ::
    "UnconstrainedSmootherCostFunction \<Rightarrow> CostValues \<Rightarrow> double \<Rightarrow> uint \<Rightarrow> uint \<Rightarrow> double \<Rightarrow>
     CostComputations \<Rightarrow> double \<times> double \<Rightarrow> CostComputations \<times> double \<times> double" where
  "addCollisionJacobian self cv weight mx my value params j =
     (if value < Fin (INSCRIBED cv) then (params, j)
      else
        let params' = getCostmapGradient self mx my params;
            common_prefix = - 2 * weight * (value - Fin (MAX_NON_OBSTACLE cv))
        in (params', fst j + common_prefix * gradx params',
                     snd j + common_prefix * grady params'))"

definition addCostResidual ::
    "CostValues \<Rightarrow> double \<Rightarrow> double \<Rightarrow> CostComputations \<Rightarrow> double \<Rightarrow> double" where
  "addCostResidual cv weight value params r =
     (if feq value (Fin (FREE cv)) \<or> feq value (Fin (UNKNOWN cv)) then r
      else if \<not> feq (cost params) 0 then r + cost params
      else r + - 1 * weight * (value * value - 2 * Fin (MAX_NON_OBSTACLE cv) * value
             + Fin (MAX_NON_OBSTACLE cv) * Fin (MAX_NON_OBSTACLE cv)))"

definition addCostJacobian ::
    "UnconstrainedSmootherCostFunction \<Rightarrow> CostValues \<Rightarrow> double \<Rightarrow> uint \<Rightarrow> uint \<Rightarrow> double \<Rightarrow>
     CostComputations \<Rightarrow> double \<times> double \<Rightarrow> CostComputations \<times> double \<times> double" where
  "addCostJacobian self cv weight mx my value params j =
     (if feq value (Fin (FREE cv)) \<or> feq value (Fin (UNKNOWN cv)) then (params, j)
      else
        let params' = (if feq (gradx params) 0 \<and> feq (grady params) 0
                       then getCostmapGradient self mx my params else params);
            common_prefix = - 2 * weight * (value - Fin (MAX_NON_OBSTACLE cv))
        in (params', fst j + common_prefix * gradx params',
                     snd j + common_prefix * grady params'))"

definition addTurningRateChangeResidual ::
    "double \<Rightarrow> double \<Rightarrow> double \<Rightarrow> double \<Rightarrow> double" where
  "addTurningRateChangeResidual weight ki ki_m r =
     r + weight * (ki * ki + ki_m * ki_m - 2 * ki * ki_m)"

definition addTurningRateChangeJacobian ::
    "double \<Rightarrow> double \<Rightarrow> double \<Rightarrow> double \<times> double \<Rightarrow> double \<times> double" where
  "addTurningRateChangeJacobian weight ki ki_m j =
     (fst j + 2 * weight * (ki - ki_m), snd j + 2 * weight * (ki - ki_m))"

subsection \<open>Evaluate\<close>

text \<open>
  The locals of \<^verbatim>\<open>Evaluate\<close> that live across iterations of its loop, and the
  caller's gradient buffer (\<open>None\<close> is \<^verbatim>\<open>NULL\<close>). \<^verbatim>\<open>mx\<close>, \<^verbatim>\<open>my\<close>,
  \<^verbatim>\<open>valid_coords\<close> and \<^verbatim>\<open>costmap_cost\<close> are written in an iteration before that
  iteration reads them; the body binds them.
\<close>

record EvaluateState =
  cost_raw :: double
  grad_x_raw :: double
  grad_y_raw :: double
  ki_m1 :: double
  curvature_params :: CurvatureComputations
  cost_params :: CostComputations
  gradient :: "double list option"

text \<open>
  The loop body is modelled in two parts and the iteration that joins them. The first
  part (lines 143 to 152 of the source) adds the
  five cost terms of the point \<open>xi\<close> to \<^verbatim>\<open>cost_raw\<close>; it hands on what
  \<^verbatim>\<open>worldToMap\<close> and \<^verbatim>\<open>getCost\<close> gave: \<open>None\<close> when \<^verbatim>\<open>valid_coords\<close> is false,
  and \<^verbatim>\<open>mx\<close>, \<^verbatim>\<open>my\<close> and \<^verbatim>\<open>costmap_cost\<close> otherwise.
\<close>

definition Evaluate_cost ::
    "UnconstrainedSmootherCostFunction \<Rightarrow> CostValues \<Rightarrow> Vector2d \<Rightarrow> Vector2d \<Rightarrow> Vector2d \<Rightarrow>
     EvaluateState \<Rightarrow> EvaluateState \<times> (uint \<times> uint \<times> double) option" where
  "Evaluate_cost self cv xi xi_p1 xi_m1 st =
     (let r1 = addSmoothingResidual (Wsmooth self) xi xi_p1 xi_m1 (cost_raw st);
          (c, r2) = addMaxCurvatureResidual self (Wcurve self) xi xi_p1 xi_m1
                      (curvature_params st) r1;
          r3 = addTurningRateChangeResidual (Wchange self) (turning_rad c) (ki_m1 st) r2;
          st1 = st\<lparr>cost_raw := r3, curvature_params := c\<rparr>
      in
      case worldToMap (costmap self) (fst xi) (snd xi) of
        None \<Rightarrow> (st1, None)
      | Some (mx, my) \<Rightarrow>
          let costmap_cost = getCost (costmap self) mx my;
              (q, r4) = addCollisionResidual cv (Wcollision self) costmap_cost
                          (cost_params st1) r3;
              r5 = addCostResidual cv (Wcost self) costmap_cost q r4
          in (st1\<lparr>cost_raw := r5, cost_params := q\<rparr>, Some (mx, my, costmap_cost)))"

text \<open>
  The second part (lines 154 to 169) runs when the gradient buffer is not
  \<^verbatim>\<open>NULL\<close>: it zeroes the two slots of the point, adds the five Jacobians to
  \<^verbatim>\<open>grad_x_raw\<close> and \<^verbatim>\<open>grad_y_raw\<close>, and stores these in the two slots.
\<close>

definition Evaluate_gradient ::
    "UnconstrainedSmootherCostFunction \<Rightarrow> CostValues \<Rightarrow> nat \<Rightarrow> nat \<Rightarrow>
     Vector2d \<Rightarrow> Vector2d \<Rightarrow> Vector2d \<Rightarrow> (uint \<times> uint \<times> double) option \<Rightarrow>
     EvaluateState \<Rightarrow> EvaluateState" where
  "Evaluate_gradient self cv x_index y_index xi xi_p1 xi_m1 valid_coords st =
     (case gradient st of
        None \<Rightarrow> st
      | Some g \<Rightarrow>
          let g1 = g[x_index := 0, y_index := 0];
              j1 = addSmoothingJacobian (Wsmooth self) xi xi_p1 xi_m1
                     (grad_x_raw st, grad_y_raw st);
              j2 = addMaxCurvatureJacobian self (Wcurve self) xi xi_p1 xi_m1
                     (curvature_params st) j1;
              j3 = addTurningRateChangeJacobian (Wchange self)
                     (turning_rad (curvature_params st)) (ki_m1 st) j2;
              (q, j5) =
                (case valid_coords of
                   None \<Rightarrow> (cost_params st, j3)
                 | Some (mx, my, costmap_cost) \<Rightarrow>
                     let (q1, j4) = addCollisionJacobian self cv (Wcollision self)
                                      mx my costmap_cost (cost_params st) j3
                     in addCostJacobian self cv (Wcost self) mx my costmap_cost q1 j4)
          in st\<lparr>grad_x_raw := fst j5, grad_y_raw := snd j5, cost_params := q,
                gradient := Some (g1[x_index := fst j5, y_index := snd j5])\<rparr>)"

text \<open>
  One iteration of the loop, for the index \<open>i\<close>: the guard that skips the two
  boundary points, the three points read from the parameters, the two parts above, and
  the update of \<^verbatim>\<open>ki_m1\<close> (line 171). The parameters are read at the indices
  \<open>2 * i - 2\<close> to \<open>2 * i + 3\<close> and the gradient is written at \<open>2 * i\<close> and
  \<open>2 * i + 1\<close>: the caller passes buffers of \<^verbatim>\<open>NumParameters()\<close> elements.
\<close>

definition Evaluate_body ::
    "UnconstrainedSmootherCostFunction \<Rightarrow> CostValues \<Rightarrow> double list \<Rightarrow> nat \<Rightarrow>
     EvaluateState \<Rightarrow> EvaluateState" where
  "Evaluate_body self cv parameters i st =
     (let x_index = 2 * i;
          y_index = 2 * i + 1
      in
      if i < 1 \<or> i \<ge> NumParameters self div 2 - 1 then st
      else
        let xi = (parameters ! x_index, parameters ! y_index);
            xi_p1 = (parameters ! (x_index + 2), parameters ! (y_index + 2));
            xi_m1 = (parameters ! (x_index - 2), parameters ! (y_index - 2));
            (st1, valid_coords) = Evaluate_cost self cv xi xi_p1 xi_m1 st;
            st2 = Evaluate_gradient self cv x_index y_index xi xi_p1 xi_m1 valid_coords st1
        in st2\<lparr>ki_m1 := turning_rad (curvature_params st2)\<rparr>)"

text \<open>
  What \<^verbatim>\<open>Evaluate\<close> hands back: its return value, \<^verbatim>\<open>cost[0]\<close>, and the gradient
  buffer after the call.
\<close>

record EvaluateResult =
  returned :: bool
  cost_out :: double
  gradient_out :: "double list option"

definition Evaluate_init ::
    "CurvatureComputations \<Rightarrow> double list option \<Rightarrow> EvaluateState" where
  "Evaluate_init uninitialized gradient_in =
     \<lparr>cost_raw = 0, grad_x_raw = 0, grad_y_raw = 0, ki_m1 = 0,
      curvature_params = CurvatureComputations_ctor uninitialized,
      cost_params = CostComputations_ctor,
      gradient = gradient_in\<rparr>"

definition Evaluate ::
    "UnconstrainedSmootherCostFunction \<Rightarrow> CostValues \<Rightarrow> CurvatureComputations \<Rightarrow>
     double list \<Rightarrow> double list option \<Rightarrow> EvaluateResult" where
  "Evaluate self cv uninitialized parameters gradient_in =
     (let st = fold (Evaluate_body self cv parameters) [0 ..< NumParameters self div 2]
                 (Evaluate_init uninitialized gradient_in)
      in \<lparr>returned = True, cost_out = cost_raw st, gradient_out = gradient st\<rparr>)"

subsection \<open>Degenerate segments\<close>

text \<open>
  The test of lines 263 to 265 of the source, on the three points handed to
  \<^verbatim>\<open>addMaxCurvatureResidual\<close>: one of the two segments is shorter than
  \<^verbatim>\<open>EPSILON\<close>, or its length is NaN or infinite. The length of a segment between
  finite points is infinite when its square overflows.
\<close>

definition degenerate :: "Vector2d \<Rightarrow> Vector2d \<Rightarrow> Vector2d \<Rightarrow> bool" where
  "degenerate pt pt_p pt_m \<longleftrightarrow>
     norm2d (fst pt - fst pt_m, snd pt - snd pt_m) < EPSILON \<or>
     norm2d (fst pt_p - fst pt, snd pt_p - snd pt) < EPSILON \<or>
     isnan (norm2d (fst pt_p - fst pt, snd pt_p - snd pt)) \<or>
     isnan (norm2d (fst pt - fst pt_m, snd pt - snd pt_m)) \<or>
     isinf (norm2d (fst pt_p - fst pt, snd pt_p - snd pt)) \<or>
     isinf (norm2d (fst pt - fst pt_m, snd pt - snd pt_m))"

subsection \<open>The clamp of the projection\<close>

text \<open>
  What lines 273 to 275 of the source leave in \<^verbatim>\<open>projection\<close>, for a finite number:
  within \<^verbatim>\<open>EPSILON\<close> of 1 or of \<open>- 1\<close> it becomes 1, and it is kept otherwise.
\<close>

definition clamped :: "real \<Rightarrow> real" where
  "clamped p = (if \<bar>1 - p\<bar> < 1 / 10000 \<or> \<bar>p + 1\<bar> < 1 / 10000 then 1 else p)"

subsection \<open>What the cost reads\<close>

text \<open>
  The part of the loop state that the cost terms read and write: \<^verbatim>\<open>cost_raw\<close>,
  \<^verbatim>\<open>ki_m1\<close>, the curvature cache and the member \<^verbatim>\<open>cost\<close> of the cost cache.
\<close>

definition cost_view ::
    "EvaluateState \<Rightarrow> double \<times> double \<times> CurvatureComputations \<times> double" where
  "cost_view st = (cost_raw st, ki_m1 st, curvature_params st, cost (cost_params st))"

subsection \<open>The five-point stencil as the specification words it\<close>

text \<open>
  This definition follows the specification, not the source: in each axis the estimate
  \<open>(8 * f(+1) - f(+2) - 8 * f(-1) + f(-2)) / 12\<close> over the four neighbours of the cell
  in that axis, a neighbour outside the grid counting as 0 and never read; the pair is
  divided by its magnitude when that exceeds \<^verbatim>\<open>EPSILON\<close> and is the zero vector
  otherwise. It is compared with \<open>getCostmapGradient\<close> below.
\<close>

definition sample_or_zero :: "MinimalCostmap \<Rightarrow> int \<Rightarrow> int \<Rightarrow> double" where
  "sample_or_zero cm ix iy =
     (if 0 \<le> ix \<and> ix < uint (sizeX cm) \<and> 0 \<le> iy \<and> iy < uint (sizeY cm)
      then getCost cm (word_of_int ix) (word_of_int iy) else 0)"

definition five_point_stencil_spec ::
    "MinimalCostmap \<Rightarrow> uint \<Rightarrow> uint \<Rightarrow> double \<times> double" where
  "five_point_stencil_spec cm mx my =
     (let ix = uint mx;
          iy = uint my;
          dx = (8 * sample_or_zero cm (ix + 1) iy - sample_or_zero cm (ix + 2) iy
                - 8 * sample_or_zero cm (ix - 1) iy + sample_or_zero cm (ix - 2) iy) / 12;
          dy = (8 * sample_or_zero cm ix (iy + 1) - sample_or_zero cm ix (iy + 2)
                - 8 * sample_or_zero cm ix (iy - 1) + sample_or_zero cm ix (iy - 2)) / 12;
          mag = hypot dx dy
      in if mag > EPSILON then (dx / mag, dy / mag) else (0, 0))"

subsection \<open>Inputs of the examples\<close>

text \<open>
  A cost map that contains no point (\<^verbatim>\<open>worldToMap\<close> always returns false), the cost
  values of nav2's cost maps (free space 0, no information 255, inscribed obstacle 253,
  largest cost that is not an obstacle 252), and a memory of zeros for the curvature
  cache.
\<close>

definition example_costmap_outside :: MinimalCostmap where
  "example_costmap_outside =
     \<lparr>sizeX = 0, sizeY = 0, getCost = (\<lambda>mx my. 0), worldToMap = (\<lambda>wx wy. None)\<rparr>"

definition nav2_cost_values :: CostValues where
  "nav2_cost_values = \<lparr>FREE = 0, UNKNOWN = 255, INSCRIBED = 253, MAX_NON_OBSTACLE = 252\<rparr>"

definition memory_zero :: CurvatureComputations where
  "memory_zero =
     \<lparr>valid = False, delta_xi = (0, 0), delta_xi_p = (0, 0), delta_xi_norm = 0,
      delta_xi_p_norm = 0, delta_phi_i = 0, turning_rad = 0, ki_minus_kmax = 0\<rparr>"

text \<open>
  A memory for the curvature cache that holds NaN in every \<^verbatim>\<open>double\<close>.
\<close>

definition memory_nan :: CurvatureComputations where
  "memory_nan =
     \<lparr>valid = False, delta_xi = (NaN, NaN), delta_xi_p = (NaN, NaN), delta_xi_norm = NaN,
      delta_xi_p_norm = NaN, delta_phi_i = NaN, turning_rad = NaN, ki_minus_kmax = NaN\<rparr>"

text \<open>
  A grid of 5 by 5 cells whose cost is 0 but for the cell \<open>(0, 2)\<close>, where it is 12;
  and a cost map of 5 by 5 cells whose \<^verbatim>\<open>getCost\<close> answers 12 for two cells that
  are not on the grid, \<open>(5, 2)\<close> and \<open>(4294967294, 1)\<close>, and 0 for every other cell.
\<close>

definition example_costmap_grid :: MinimalCostmap where
  "example_costmap_grid =
     \<lparr>sizeX = 5, sizeY = 5,
      getCost = (\<lambda>mx my. if mx = 0 \<and> my = 2 then 12 else 0),
      worldToMap = (\<lambda>wx wy. Some (2, 2))\<rparr>"

definition example_costmap_edge :: MinimalCostmap where
  "example_costmap_edge =
     \<lparr>sizeX = 5, sizeY = 5,
      getCost = (\<lambda>mx my. if mx = 5 \<and> my = 2 \<or> mx = 4294967294 \<and> my = 1 then 12 else 0),
      worldToMap = (\<lambda>wx wy. Some (4, 2))\<rparr>"

subsection \<open>Facts about the arithmetic\<close>

lemma numeral_double: "(numeral n :: double) = Fin (numeral n)"
proof (induction n)
  case One
  show ?case by (simp add: one_double_def)
next
  case (Bit0 n)
  have "(numeral (num.Bit0 n) :: double) = Fin (numeral n) + Fin (numeral n)"
    by (simp only: numeral_Bit0 Bit0.IH)
  also have "\<dots> = Fin (numeral (num.Bit0 n))"
    by (simp only: plus_double.simps numeral_Bit0)
  finally show ?case .
next
  case (Bit1 n)
  have "(numeral (num.Bit1 n) :: double) = Fin (numeral n) + Fin (numeral n) + Fin 1"
    by (simp only: numeral_Bit1 Bit1.IH one_double_def)
  also have "\<dots> = Fin (numeral (num.Bit1 n))"
    by (simp only: plus_double.simps numeral_Bit1)
  finally show ?case .
qed

lemma zero_double: "(0 :: double) = Fin 0"
  by (simp add: zero_double_def)

lemma one_double: "(1 :: double) = Fin 1"
  by (simp add: one_double_def)

lemma minus_Fin: "Fin a - Fin b = Fin (a - b)"
  by (simp add: minus_double_def)

lemmas double_arith = numeral_double zero_double one_double minus_Fin

lemma DBL_MAX_ge_971: "2 ^ 971 \<le> DBL_MAX"
proof -
  have "1 * (2 :: real) ^ 971 \<le> (2 ^ 53 - 1) * 2 ^ 971"
    by (intro mult_right_mono) simp_all
  then show ?thesis by (simp only: DBL_MAX_def mult_1)
qed

lemma DBL_MAX_ge: "2 ^ 53 \<le> DBL_MAX"
proof -
  have "(2 :: real) ^ 53 \<le> 2 ^ 971" by (rule power_increasing) simp_all
  with DBL_MAX_ge_971 show ?thesis by linarith
qed

lemma overflow_Fin: "\<bar>a\<bar> \<le> DBL_MAX \<Longrightarrow> overflow (Fin a) = Fin a"
  by (auto simp: overflow.simps(1))

lemma overflow_small: "\<bar>a\<bar> \<le> 2 ^ 53 \<Longrightarrow> overflow (Fin a) = Fin a"
  using DBL_MAX_ge by (intro overflow_Fin) linarith

lemma norm2d_Fin:
  "a * a + b * b \<le> DBL_MAX \<Longrightarrow> norm2d (Fin a, Fin b) = Fin (sqrt (a * a + b * b))"
proof -
  assume le: "a * a + b * b \<le> DBL_MAX"
  have "0 \<le> a * a + b * b" by simp
  with le have "overflow (Fin (a * a + b * b)) = Fin (a * a + b * b)"
    by (intro overflow_Fin) simp
  then show ?thesis
    by (simp add: norm2d_def squaredNorm_def not_sum_squares_lt_zero)
qed

lemma norm2d_overflow:
  "DBL_MAX < a * a + b * b \<Longrightarrow> norm2d (Fin a, Fin b) = PInf"
  by (simp add: norm2d_def squaredNorm_def overflow.simps(1))

lemma dot_Fin: "dot (Fin a, Fin b) (Fin c, Fin d) = Fin (a * c + b * d)"
  by (simp add: dot_def)

text \<open>The equations that evaluate \<^verbatim>\<open>Evaluate\<close> on a concrete path outside the cost map.\<close>

lemmas Evaluate_unfold =
  Evaluate_def Evaluate_init_def Evaluate_body_def Evaluate_cost_def Evaluate_gradient_def
  NumParameters_def UnconstrainedSmootherCostFunction_ctor_def example_costmap_outside_def
  CurvatureComputations_ctor_def CostComputations_ctor_def
  addSmoothingResidual_def addSmoothingJacobian_def addMaxCurvatureResidual_def
  addMaxCurvatureJacobian_def addTurningRateChangeResidual_def addTurningRateChangeJacobian_def
  isValid_def dot_def norm2d_def squaredNorm_def overflow_small EPSILON_def isnan_def isinf_def
  fabs_def Let_def double_arith minus_double_def

subsection \<open>The gradient computations leave the cost alone\<close>

lemma getCostmapGradient_cost: "cost (getCostmapGradient self mx my p) = cost p"
  by (simp add: getCostmapGradient_def Let_def)

lemma addCollisionJacobian_cost:
  "cost (fst (addCollisionJacobian self cv w mx my v p j)) = cost p"
  by (simp add: addCollisionJacobian_def Let_def getCostmapGradient_cost)

lemma addCostJacobian_cost:
  "cost (fst (addCostJacobian self cv w mx my v p j)) = cost p"
  by (simp add: addCostJacobian_def Let_def getCostmapGradient_cost)

lemma addCollisionResidual_cong:
  "cost p = cost p' \<Longrightarrow>
     cost (fst (addCollisionResidual cv w v p r)) =
       cost (fst (addCollisionResidual cv w v p' r)) \<and>
     snd (addCollisionResidual cv w v p r) = snd (addCollisionResidual cv w v p' r)"
  by (simp add: addCollisionResidual_def Let_def)

lemma addCostResidual_cong:
  "cost p = cost p' \<Longrightarrow> addCostResidual cv w v p r = addCostResidual cv w v p' r"
  by (simp add: addCostResidual_def)

lemma Evaluate_gradient_cost_view:
  "cost_view (Evaluate_gradient self cv x y xi xi_p1 xi_m1 h st) = cost_view st"
  by (simp add: Evaluate_gradient_def cost_view_def Let_def case_prod_beta
       addCollisionJacobian_cost addCostJacobian_cost split: option.splits)

lemma Evaluate_cost_cost_view:
  assumes "cost_view s = cost_view t"
  shows "cost_view (fst (Evaluate_cost self cv xi xi_p1 xi_m1 s)) =
         cost_view (fst (Evaluate_cost self cv xi xi_p1 xi_m1 t)) \<and>
         snd (Evaluate_cost self cv xi xi_p1 xi_m1 s) =
         snd (Evaluate_cost self cv xi xi_p1 xi_m1 t)"
proof -
  from assms have e: "cost_raw s = cost_raw t" "ki_m1 s = ki_m1 t"
    "curvature_params s = curvature_params t" "cost (cost_params s) = cost (cost_params t)"
    by (simp_all add: cost_view_def)
  show ?thesis
  proof (cases "worldToMap (costmap self) (fst xi) (snd xi)")
    case None
    then show ?thesis using e
      by (simp add: Evaluate_cost_def cost_view_def Let_def case_prod_beta)
  next
    case (Some m)
    obtain mx my where m: "m = (mx, my)" by (cases m)
    let ?c = "addMaxCurvatureResidual self (Wcurve self) xi xi_p1 xi_m1 (curvature_params t)
                (addSmoothingResidual (Wsmooth self) xi xi_p1 xi_m1 (cost_raw t))"
    let ?r = "addTurningRateChangeResidual (Wchange self) (turning_rad (fst ?c)) (ki_m1 t)
                (snd ?c)"
    let ?v = "getCost (costmap self) mx my"
    note c = addCollisionResidual_cong[OF e(4), of cv "Wcollision self" ?v ?r]
    from c have c1:
      "cost (fst (addCollisionResidual cv (Wcollision self) ?v (cost_params s) ?r)) =
       cost (fst (addCollisionResidual cv (Wcollision self) ?v (cost_params t) ?r))"
      by simp
    show ?thesis using e Some m c addCostResidual_cong[OF c1]
      by (simp add: Evaluate_cost_def cost_view_def Let_def case_prod_beta)
  qed
qed

lemma Evaluate_body_cost_view:
  assumes "cost_view s = cost_view t"
  shows "cost_view (Evaluate_body self cv ps i s) = cost_view (Evaluate_body self cv ps i t)"
proof (cases "i < 1 \<or> i \<ge> NumParameters self div 2 - 1")
  case True
  then show ?thesis using assms by (simp add: Evaluate_body_def)
next
  case False
  let ?xi = "(ps ! (2 * i), ps ! (2 * i + 1))"
  let ?xp = "(ps ! (2 * i + 2), ps ! (2 * i + 1 + 2))"
  let ?xm = "(ps ! (2 * i - 2), ps ! (2 * i + 1 - 2))"
  note h = Evaluate_cost_cost_view[OF assms, of self cv ?xi ?xp ?xm]
  have v: "\<And>st. cost_view (st\<lparr>ki_m1 := turning_rad (curvature_params st)\<rparr>) =
     (cost_raw st, turning_rad (curvature_params st), curvature_params st,
      cost (cost_params st))"
    by (simp add: cost_view_def)
  have w: "\<And>st. (cost_raw st, turning_rad (curvature_params st), curvature_params st,
                 cost (cost_params st)) =
     (fst (cost_view st), turning_rad (fst (snd (snd (cost_view st)))),
      snd (snd (cost_view st)))"
    by (simp add: cost_view_def)
  show ?thesis using False h
    by (simp add: Evaluate_body_def Let_def case_prod_beta v w Evaluate_gradient_cost_view)
qed

lemma fold_cost_view:
  "cost_view s = cost_view t \<Longrightarrow>
   cost_view (fold (Evaluate_body self cv ps) xs s) =
   cost_view (fold (Evaluate_body self cv ps) xs t)"
proof (induction xs arbitrary: s t)
  case Nil
  then show ?case by simp
next
  case (Cons x xs)
  from Cons.prems
  have "cost_view (Evaluate_body self cv ps x s) = cost_view (Evaluate_body self cv ps x t)"
    by (rule Evaluate_body_cost_view)
  from Cons.IH[OF this] show ?case by simp
qed

text \<open>
  Claim C10. For every object, cost values, path and initial memory of the curvature
  cache, \<^verbatim>\<open>Evaluate\<close> writes the same \<^verbatim>\<open>cost[0]\<close> when it is given a gradient
  buffer as when the gradient is \<^verbatim>\<open>NULL\<close>: the Jacobians write \<^verbatim>\<open>grad_x_raw\<close>,
  \<^verbatim>\<open>grad_y_raw\<close>, the buffer and the members \<^verbatim>\<open>gradx\<close> and \<^verbatim>\<open>grady\<close> of the cost
  cache, none of which a cost term reads.
\<close>

theorem Evaluate_cost_independent_of_gradient:
  "cost_out (Evaluate self cv u ps (Some g)) = cost_out (Evaluate self cv u ps None)"
proof -
  have "cost_view (Evaluate_init u (Some g)) = cost_view (Evaluate_init u None)"
    by (simp add: cost_view_def Evaluate_init_def)
  from fold_cost_view[OF this, of self cv ps "[0 ..< NumParameters self div 2]"]
  show ?thesis by (simp add: Evaluate_def cost_view_def Let_def)
qed

subsection \<open>The gradient slots of the boundary points\<close>

lemma Evaluate_cost_gradient:
  "gradient (fst (Evaluate_cost self cv xi xi_p1 xi_m1 st)) = gradient st"
  by (simp add: Evaluate_cost_def Let_def case_prod_beta split: option.splits)

lemma Evaluate_gradient_writes:
  assumes "gradient st = Some g"
  shows "\<exists>a b. gradient (Evaluate_gradient self cv x y xi xi_p1 xi_m1 h st) =
           Some (g[x := 0, y := 0, x := a, y := b])"
  using assms by (simp add: Evaluate_gradient_def Let_def case_prod_beta) blast

lemma Evaluate_body_gradient_frame:
  assumes "gradient st = Some g"
  shows "\<exists>g'. gradient (Evaluate_body self cv ps i st) = Some g' \<and> length g' = length g \<and>
           (\<forall>k. k < 2 \<or> 2 * (NumParameters self div 2) - 2 \<le> k \<longrightarrow> g' ! k = g ! k)"
proof (cases "i < 1 \<or> i \<ge> NumParameters self div 2 - 1")
  case True
  then show ?thesis using assms by (simp add: Evaluate_body_def)
next
  case False
  let ?xi = "(ps ! (2 * i), ps ! (2 * i + 1))"
  let ?xp = "(ps ! (2 * i + 2), ps ! (2 * i + 1 + 2))"
  let ?xm = "(ps ! (2 * i - 2), ps ! (2 * i + 1 - 2))"
  let ?c = "Evaluate_cost self cv ?xi ?xp ?xm st"
  have "gradient (fst ?c) = Some g"
    using assms by (simp add: Evaluate_cost_gradient)
  from Evaluate_gradient_writes[OF this, of self cv "2 * i" "2 * i + 1" ?xi ?xp ?xm "snd ?c"]
  obtain a b where
    w: "gradient (Evaluate_gradient self cv (2 * i) (2 * i + 1) ?xi ?xp ?xm (snd ?c) (fst ?c)) =
        Some (g[2 * i := 0, 2 * i + 1 := 0, 2 * i := a, 2 * i + 1 := b])"
    by blast
  have "gradient (Evaluate_body self cv ps i st) =
        Some (g[2 * i := 0, 2 * i + 1 := 0, 2 * i := a, 2 * i + 1 := b])"
    using False w by (simp add: Evaluate_body_def Let_def case_prod_beta)
  moreover have "\<forall>k. k < 2 \<or> 2 * (NumParameters self div 2) - 2 \<le> k \<longrightarrow>
      g[2 * i := 0, 2 * i + 1 := 0, 2 * i := a, 2 * i + 1 := b] ! k = g ! k"
    using False by (auto simp: nth_list_update)
  ultimately show ?thesis by simp
qed

lemma fold_gradient_frame:
  assumes "gradient st = Some g"
  shows "\<exists>g'. gradient (fold (Evaluate_body self cv ps) xs st) = Some g' \<and>
           length g' = length g \<and>
           (\<forall>k. k < 2 \<or> 2 * (NumParameters self div 2) - 2 \<le> k \<longrightarrow> g' ! k = g ! k)"
  using assms
proof (induction xs arbitrary: st g)
  case Nil
  then show ?case by simp
next
  case (Cons x xs)
  from Evaluate_body_gradient_frame[OF Cons.prems, of self cv ps x]
  obtain g1 where g1: "gradient (Evaluate_body self cv ps x st) = Some g1"
    "length g1 = length g"
    "\<forall>k. k < 2 \<or> 2 * (NumParameters self div 2) - 2 \<le> k \<longrightarrow> g1 ! k = g ! k"
    by blast
  from Cons.IH[OF g1(1)] g1(2,3) show ?case by auto
qed

lemma Evaluate_gradient_frame:
  "\<exists>g'. gradient_out (Evaluate self cv u ps (Some g)) = Some g' \<and> length g' = length g \<and>
     (\<forall>k. k < 2 \<or> 2 * (NumParameters self div 2) - 2 \<le> k \<longrightarrow> g' ! k = g ! k)"
proof -
  have "gradient (Evaluate_init u (Some g)) = Some g"
    by (simp add: Evaluate_init_def)
  from fold_gradient_frame[OF this, of self cv ps "[0 ..< NumParameters self div 2]"]
  show ?thesis by (simp add: Evaluate_def Let_def)
qed

text \<open>
  For a path of \<open>n \<ge> 3\<close> points and a gradient buffer of \<open>2 * n\<close> entries,
  \<^verbatim>\<open>Evaluate\<close> leaves a gradient buffer of the length of the path whose entries at the
  indices 0, 1, \<open>2 * n - 2\<close> and \<open>2 * n - 1\<close> are the entries the caller's buffer held
  before the call: the loop skips the two boundary points before it writes anything.
\<close>

lemma Evaluate_gradient_endpoints_kept:
  assumes "NumParameters self = 2 * n" and "3 \<le> n"
    and "length ps = 2 * n" and "length g = 2 * n"
  shows "\<exists>g'. gradient_out (Evaluate self cv u ps (Some g)) = Some g' \<and>
           length g' = length ps \<and>
           g' ! 0 = g ! 0 \<and> g' ! 1 = g ! 1 \<and>
           g' ! (2 * n - 2) = g ! (2 * n - 2) \<and> g' ! (2 * n - 1) = g ! (2 * n - 1)"
proof -
  from Evaluate_gradient_frame[of self cv u ps g]
  obtain g' where g': "gradient_out (Evaluate self cv u ps (Some g)) = Some g'"
    "length g' = length g"
    "\<forall>k. k < 2 \<or> 2 * (NumParameters self div 2) - 2 \<le> k \<longrightarrow> g' ! k = g ! k"
    by blast
  have n: "NumParameters self div 2 = n" using assms(1) by simp
  from g'(3) n assms(2) have "g' ! 0 = g ! 0" "g' ! 1 = g ! 1"
    "g' ! (2 * n - 2) = g ! (2 * n - 2)" "g' ! (2 * n - 1) = g ! (2 * n - 1)"
    by simp_all
  with g'(1,2) assms(3,4) show ?thesis by simp
qed

text \<open>
  Claim C2. The claim does not hold of the code: the only assignments to the gradient
  buffer (lines 156 to 168) come after the \<^verbatim>\<open>continue\<close> of line 136, so
  \<^verbatim>\<open>Evaluate\<close> never assigns the four entries of the two boundary points, and they
  hold after the call whatever the caller's buffer held before it (the lemma above). The
  documentation of \<^verbatim>\<open>Evaluate\<close> promises the gradient of the path at each pair of
  coordinates, and the loop sets the two entries of an interior point to zero before it
  fills them. On the straight path \<open>(0, 0)\<close>, \<open>(1, 0)\<close>, \<open>(2, 0)\<close>, outside the cost
  map, a buffer that holds 7 in every entry before the call holds \<open>[7, 7, 0, 0, 7, 7]\<close>
  after it: the entries of the boundary points are not zero.
\<close>

theorem Evaluate_gradient_endpoint_nonzero:
  "gradient_out (Evaluate (UnconstrainedSmootherCostFunction_ctor 3 example_costmap_outside)
      nav2_cost_values memory_zero [0, 0, 1, 0, 2, 0] (Some [7, 7, 7, 7, 7, 7])) =
     Some [7, 7, 0, 0, 7, 7] \<and>
   the (gradient_out (Evaluate (UnconstrainedSmootherCostFunction_ctor 3 example_costmap_outside)
      nav2_cost_values memory_zero [0, 0, 1, 0, 2, 0] (Some [7, 7, 7, 7, 7, 7]))) ! 0 \<noteq> 0"
  by (simp add: Evaluate_unfold memory_zero_def upt_conv_Cons)

subsection \<open>The field terms at the named cost values\<close>

lemma addCollisionResidual_active:
  "i \<le> v \<Longrightarrow> INSCRIBED cv = i \<Longrightarrow> MAX_NON_OBSTACLE cv = m \<Longrightarrow>
   addCollisionResidual cv (Fin w) (Fin v) p r =
     (p\<lparr>cost := Fin (- (w * (v - m)\<^sup>2))\<rparr>, r + Fin (- (w * (v - m)\<^sup>2)))"
  by (simp add: addCollisionResidual_def Let_def double_arith power2_eq_square algebra_simps)

lemma addCollisionResidual_inactive:
  "v < INSCRIBED cv \<Longrightarrow> addCollisionResidual cv w (Fin v) p r = (p, r)"
  by (simp add: addCollisionResidual_def)

text \<open>
  Claim C3, as amended. For a sampled value exactly \<^verbatim>\<open>FREE\<close> the cost-avoidance term
  adds nothing to the cost and nothing to the gradient. For a value exactly
  \<^verbatim>\<open>INSCRIBED\<close> the collision term is active and adds
  \<open>- w * (INSCRIBED - MAX_NON_OBSTACLE)\<^sup>2\<close>, which is not positive when the weight
  \<open>w\<close> is not negative. For the value \<^verbatim>\<open>UNKNOWN\<close> the cost-avoidance term adds
  nothing; the collision term tests \<^verbatim>\<open>value < INSCRIBED\<close> only, so it adds nothing
  for \<^verbatim>\<open>UNKNOWN\<close> when \<^verbatim>\<open>UNKNOWN < INSCRIBED\<close> and adds
  \<open>- w * (UNKNOWN - MAX_NON_OBSTACLE)\<^sup>2\<close> otherwise.
\<close>

theorem field_terms_at_thresholds:
  "addCostResidual cv w (Fin (FREE cv)) p r = r \<and>
   addCostJacobian self cv w mx my (Fin (FREE cv)) p j = (p, j) \<and>
   addCostResidual cv w (Fin (UNKNOWN cv)) p r = r \<and>
   addCostJacobian self cv w mx my (Fin (UNKNOWN cv)) p j = (p, j) \<and>
   addCollisionResidual cv (Fin a) (Fin (INSCRIBED cv)) p r =
     (p\<lparr>cost := Fin (- (a * (INSCRIBED cv - MAX_NON_OBSTACLE cv)\<^sup>2))\<rparr>,
      r + Fin (- (a * (INSCRIBED cv - MAX_NON_OBSTACLE cv)\<^sup>2))) \<and>
   (0 \<le> a \<longrightarrow> - (a * (INSCRIBED cv - MAX_NON_OBSTACLE cv)\<^sup>2) \<le> 0) \<and>
   (UNKNOWN cv < INSCRIBED cv \<longrightarrow>
      addCollisionResidual cv (Fin a) (Fin (UNKNOWN cv)) p r = (p, r)) \<and>
   (INSCRIBED cv \<le> UNKNOWN cv \<longrightarrow>
      addCollisionResidual cv (Fin a) (Fin (UNKNOWN cv)) p r =
        (p\<lparr>cost := Fin (- (a * (UNKNOWN cv - MAX_NON_OBSTACLE cv)\<^sup>2))\<rparr>,
         r + Fin (- (a * (UNKNOWN cv - MAX_NON_OBSTACLE cv)\<^sup>2))))"
proof -
  have 1: "addCostResidual cv w (Fin (FREE cv)) p r = r"
    by (simp add: addCostResidual_def feq_def)
  have 2: "addCostJacobian self cv w mx my (Fin (FREE cv)) p j = (p, j)"
    by (simp add: addCostJacobian_def feq_def)
  have 3: "addCostResidual cv w (Fin (UNKNOWN cv)) p r = r"
    by (simp add: addCostResidual_def feq_def)
  have 4: "addCostJacobian self cv w mx my (Fin (UNKNOWN cv)) p j = (p, j)"
    by (simp add: addCostJacobian_def feq_def)
  have 5: "addCollisionResidual cv (Fin a) (Fin (INSCRIBED cv)) p r =
     (p\<lparr>cost := Fin (- (a * (INSCRIBED cv - MAX_NON_OBSTACLE cv)\<^sup>2))\<rparr>,
      r + Fin (- (a * (INSCRIBED cv - MAX_NON_OBSTACLE cv)\<^sup>2)))"
    by (rule addCollisionResidual_active) simp_all
  have 6: "0 \<le> a \<longrightarrow> - (a * (INSCRIBED cv - MAX_NON_OBSTACLE cv)\<^sup>2) \<le> 0"
    by simp
  have 7: "UNKNOWN cv < INSCRIBED cv \<longrightarrow>
      addCollisionResidual cv (Fin a) (Fin (UNKNOWN cv)) p r = (p, r)"
    by (simp add: addCollisionResidual_inactive)
  have 8: "INSCRIBED cv \<le> UNKNOWN cv \<longrightarrow>
      addCollisionResidual cv (Fin a) (Fin (UNKNOWN cv)) p r =
        (p\<lparr>cost := Fin (- (a * (UNKNOWN cv - MAX_NON_OBSTACLE cv)\<^sup>2))\<rparr>,
         r + Fin (- (a * (UNKNOWN cv - MAX_NON_OBSTACLE cv)\<^sup>2)))"
    by (simp add: addCollisionResidual_active)
  from 1 2 3 4 5 6 7 8 show ?thesis by blast
qed

theorem field_terms_at_thresholds_witness:
  "(0 :: real) \<le> 1 \<and> INSCRIBED nav2_cost_values \<le> UNKNOWN nav2_cost_values \<and>
   addCostResidual nav2_cost_values (Fin (2 / 10)) (Fin 0) CostComputations_ctor 0 = 0 \<and>
   addCostResidual nav2_cost_values (Fin (2 / 10)) (Fin 255) CostComputations_ctor 0 = 0 \<and>
   addCollisionResidual nav2_cost_values (Fin 1) (Fin 253) CostComputations_ctor 0 =
     (CostComputations_ctor\<lparr>cost := Fin (- 1)\<rparr>, Fin (- 1)) \<and>
   addCollisionResidual nav2_cost_values (Fin 1) (Fin 255) CostComputations_ctor 0 =
     (CostComputations_ctor\<lparr>cost := Fin (- 9)\<rparr>, Fin (- 9))"
  using field_terms_at_thresholds[of nav2_cost_values "Fin (2 / 10)" CostComputations_ctor 0
      "UnconstrainedSmootherCostFunction_ctor 3 example_costmap_outside" 0 0 "(0, 0)" 1]
  by (simp add: nav2_cost_values_def double_arith)

text \<open>
  The claim as stated fails with the cost values of nav2 and the collision weight of the
  constructor: at \<^verbatim>\<open>INSCRIBED\<close> the collision term adds \<open>- 1\<close>, which is negative,
  and at \<^verbatim>\<open>UNKNOWN\<close> it adds \<open>- 9\<close>, which is not zero.
\<close>

theorem collision_term_at_thresholds_counterexample:
  "\<not> 0 \<le> snd (addCollisionResidual nav2_cost_values
              (Wcollision (UnconstrainedSmootherCostFunction_ctor 3 example_costmap_outside))
              (Fin (INSCRIBED nav2_cost_values)) CostComputations_ctor 0) \<and>
   \<not> feq (snd (addCollisionResidual nav2_cost_values
              (Wcollision (UnconstrainedSmootherCostFunction_ctor 3 example_costmap_outside))
              (Fin (UNKNOWN nav2_cost_values)) CostComputations_ctor 0)) 0"
  by (simp add: addCollisionResidual_def Let_def nav2_cost_values_def double_arith feq_def
      UnconstrainedSmootherCostFunction_ctor_def CostComputations_ctor_def)

subsection \<open>The curvature-limit term on finite points\<close>

text \<open>
  When the test holds the term adds nothing, sets the flag to false and leaves
  \<^verbatim>\<open>turning_rad\<close> as it was. When it fails, the six coordinates are finite, both
  segments are at least \<^verbatim>\<open>EPSILON\<close> long and the square of neither length exceeds
  the largest finite \<^verbatim>\<open>double\<close>: a coordinate that is NaN or infinite makes a length
  that is NaN or infinite, and so does a squared length that overflows.
\<close>

lemma addMaxCurvatureResidual_degenerate:
  "degenerate pt pt_p pt_m \<Longrightarrow>
   snd (addMaxCurvatureResidual self w pt pt_p pt_m c r) = r \<and>
   \<not> valid (fst (addMaxCurvatureResidual self w pt pt_p pt_m c r)) \<and>
   turning_rad (fst (addMaxCurvatureResidual self w pt pt_p pt_m c r)) = turning_rad c"
  by (simp add: addMaxCurvatureResidual_def Let_def degenerate_def)

lemma minus_Fin_D: "a - b = Fin d \<Longrightarrow> \<exists>x y. a = Fin x \<and> b = Fin y"
  by (cases a; cases b) (simp_all add: minus_double_def)

lemma plus_Fin_D: "a + b = Fin d \<Longrightarrow> \<exists>x y. a = Fin x \<and> b = Fin y"
  by (cases a; cases b) simp_all

lemma times_self_Fin_D: "a * a = Fin d \<Longrightarrow> \<exists>x. a = Fin x"
  by (cases a) simp_all

lemma dsqrt_Fin_D: "dsqrt s = Fin n \<Longrightarrow> \<exists>t. s = Fin t"
  by (cases s) simp_all

lemma overflow_Fin_D: "overflow s = Fin t \<Longrightarrow> s = Fin t \<and> t \<le> DBL_MAX"
  by (cases s) (auto simp: overflow.simps(1) split: if_splits)

lemma norm2d_Fin_D:
  "norm2d (a, b) = Fin n \<Longrightarrow> \<exists>x y. a = Fin x \<and> b = Fin y \<and> x * x + y * y \<le> DBL_MAX"
proof -
  assume "norm2d (a, b) = Fin n"
  then obtain s where "overflow (a * a + b * b) = Fin s"
    using dsqrt_Fin_D by (fastforce simp: norm2d_def squaredNorm_def)
  then have t: "a * a + b * b = Fin s" "s \<le> DBL_MAX"
    using overflow_Fin_D by blast+
  then obtain u v where "a * a = Fin u" "b * b = Fin v"
    using plus_Fin_D by blast
  then obtain x y where xy: "a = Fin x" "b = Fin y"
    using times_self_Fin_D by blast
  with t(1) have "x * x + y * y = s" by simp
  with t(2) xy show ?thesis by blast
qed

lemma Fin_cases: "\<not> isnan a \<Longrightarrow> \<not> isinf a \<Longrightarrow> \<exists>n. a = Fin n"
  by (cases a) (simp_all add: isnan_def isinf_def)

lemma nondegenerate_finite:
  assumes "\<not> degenerate pt pt_p pt_m"
  shows "\<exists>x y xp yp xm ym. pt = (Fin x, Fin y) \<and> pt_p = (Fin xp, Fin yp) \<and>
           pt_m = (Fin xm, Fin ym) \<and>
           1 / 10000 \<le> sqrt ((x - xm) * (x - xm) + (y - ym) * (y - ym)) \<and>
           1 / 10000 \<le> sqrt ((xp - x) * (xp - x) + (yp - y) * (yp - y)) \<and>
           (x - xm) * (x - xm) + (y - ym) * (y - ym) \<le> DBL_MAX \<and>
           (xp - x) * (xp - x) + (yp - y) * (yp - y) \<le> DBL_MAX"
proof -
  let ?d = "(fst pt - fst pt_m, snd pt - snd pt_m)"
  let ?e = "(fst pt_p - fst pt, snd pt_p - snd pt)"
  from assms have g: "\<not> norm2d ?d < EPSILON" "\<not> norm2d ?e < EPSILON"
    "\<not> isnan (norm2d ?d)" "\<not> isinf (norm2d ?d)" "\<not> isnan (norm2d ?e)" "\<not> isinf (norm2d ?e)"
    by (simp_all add: degenerate_def)
  from Fin_cases[OF g(3) g(4)] obtain n where n: "norm2d ?d = Fin n" by blast
  from Fin_cases[OF g(5) g(6)] obtain m where m: "norm2d ?e = Fin m" by blast
  from norm2d_Fin_D[OF n] obtain a b where
    ab: "fst pt - fst pt_m = Fin a" "snd pt - snd pt_m = Fin b" "a * a + b * b \<le> DBL_MAX"
    by blast
  from norm2d_Fin_D[OF m] obtain c d where
    cd: "fst pt_p - fst pt = Fin c" "snd pt_p - snd pt = Fin d" "c * c + d * d \<le> DBL_MAX"
    by blast
  from minus_Fin_D[OF ab(1)] obtain x xm where x: "fst pt = Fin x" "fst pt_m = Fin xm" by blast
  from minus_Fin_D[OF ab(2)] obtain y ym where y: "snd pt = Fin y" "snd pt_m = Fin ym" by blast
  from minus_Fin_D[OF cd(1)] obtain xp x' where xp: "fst pt_p = Fin xp" by blast
  from minus_Fin_D[OF cd(2)] obtain yp y' where yp: "snd pt_p = Fin yp" by blast
  have pts: "pt = (Fin x, Fin y)" "pt_p = (Fin xp, Fin yp)" "pt_m = (Fin xm, Fin ym)"
    using x y xp yp by (simp_all add: prod_eq_iff)
  have eqs: "a = x - xm" "b = y - ym" "c = xp - x" "d = yp - y"
    using ab(1,2) cd(1,2) by (simp_all add: pts minus_Fin)
  have s1: "(x - xm) * (x - xm) + (y - ym) * (y - ym) \<le> DBL_MAX"
    using ab(3) by (simp only: eqs)
  have s2: "(xp - x) * (xp - x) + (yp - y) * (yp - y) \<le> DBL_MAX"
    using cd(3) by (simp only: eqs)
  have "1 / 10000 \<le> sqrt ((x - xm) * (x - xm) + (y - ym) * (y - ym))"
    using g(1) by (simp add: pts minus_Fin norm2d_Fin[OF s1] EPSILON_def)
  moreover have "1 / 10000 \<le> sqrt ((xp - x) * (xp - x) + (yp - y) * (yp - y))"
    using g(2) by (simp add: pts minus_Fin norm2d_Fin[OF s2] EPSILON_def)
  ultimately show ?thesis using pts s1 s2 by blast
qed

text \<open>
  A segment between finite points whose squared length exceeds the largest finite
  \<^verbatim>\<open>double\<close> has the length \<open>+\<infinity>\<close>, and the test holds: so it does for the points
  \<open>(1/128, 0)\<close>, \<open>(1/128, 2\<^sup>6\<^sup>0\<^sup>0)\<close> and \<open>(0, 0)\<close>.
\<close>

lemma long_segment_degenerate:
  "DBL_MAX < (xp - x) * (xp - x) + (yp - y) * (yp - y) \<Longrightarrow>
   degenerate (Fin x, Fin y) (Fin xp, Fin yp) pt_m"
  by (simp add: degenerate_def minus_Fin norm2d_overflow isinf_def)

lemma DBL_MAX_less: "DBL_MAX < 2 ^ 1024"
proof -
  have "((2 :: real) ^ 53 - 1) * 2 ^ 971 < 2 ^ 53 * 2 ^ 971"
    by (intro mult_strict_right_mono) simp_all
  also have "\<dots> = (2 :: real) ^ 1024" by (simp add: power_add[symmetric])
  finally show ?thesis by (simp only: DBL_MAX_def)
qed

lemma overflowing_segment_degenerate:
  "degenerate (Fin (1 / 128), Fin 0) (Fin (1 / 128), Fin (2 ^ 600)) (Fin 0, Fin 0)"
proof -
  have "(2 :: real) ^ 1024 \<le> 2 ^ 1200" by (rule power_increasing) simp_all
  also have "\<dots> = (2 :: real) ^ 600 * 2 ^ 600" by (simp add: power_add[symmetric])
  finally have "DBL_MAX < (2 :: real) ^ 600 * 2 ^ 600" using DBL_MAX_less by linarith
  then have "DBL_MAX < (1 / 128 - 1 / 128) * (1 / 128 - 1 / 128) +
      ((2 :: real) ^ 600 - 0) * (2 ^ 600 - 0)"
    by simp
  then show ?thesis by (rule long_segment_degenerate)
qed

lemma cauchy_schwarz_2d:
  "\<bar>a * c + b * d\<bar> \<le> sqrt (a * a + b * b) * sqrt (c * c + d * d)"
proof -
  have "(a * c + b * d)\<^sup>2 \<le> (a * a + b * b) * (c * c + d * d)"
  proof -
    have "(a * a + b * b) * (c * c + d * d) - (a * c + b * d)\<^sup>2 = (a * d - b * c)\<^sup>2"
      by (simp add: power2_eq_square algebra_simps)
    moreover have "0 \<le> (a * d - b * c)\<^sup>2" by simp
    ultimately show ?thesis by linarith
  qed
  then have "\<bar>a * c + b * d\<bar>\<^sup>2 \<le> (a * a + b * b) * (c * c + d * d)" by simp
  then have "\<bar>a * c + b * d\<bar> \<le> sqrt ((a * a + b * b) * (c * c + d * d))"
    by (rule real_le_rsqrt)
  then show ?thesis by (simp add: real_sqrt_mult)
qed

lemma projection_bounds:
  assumes "0 < sqrt (a * a + b * b)" and "0 < sqrt (c * c + d * d)"
  shows "- 1 \<le> (a * c + b * d) / (sqrt (a * a + b * b) * sqrt (c * c + d * d)) \<and>
         (a * c + b * d) / (sqrt (a * a + b * b) * sqrt (c * c + d * d)) \<le> 1"
proof -
  let ?n = "sqrt (a * a + b * b) * sqrt (c * c + d * d)"
  have n: "0 < ?n" using assms by simp
  have "\<bar>a * c + b * d\<bar> \<le> ?n" by (rule cauchy_schwarz_2d)
  then have "- ?n \<le> a * c + b * d" "a * c + b * d \<le> ?n" by linarith+
  with n show ?thesis by (simp add: pos_le_divide_eq pos_divide_le_eq)
qed

lemma addMaxCurvatureResidual_finite:
  fixes x y xp yp xm ym kmax w :: real
  defines "n1 \<equiv> sqrt ((x - xm) * (x - xm) + (y - ym) * (y - ym))"
    and "n2 \<equiv> sqrt ((xp - x) * (xp - x) + (yp - y) * (yp - y))"
  defines "k \<equiv> arccos (clamped (((x - xm) * (xp - x) + (y - ym) * (yp - y)) / (n1 * n2))) / n1"
  assumes kmax: "max_turning_radius self = Fin kmax"
    and n1: "1 / 10000 \<le> n1" and n2: "1 / 10000 \<le> n2"
    and s1: "(x - xm) * (x - xm) + (y - ym) * (y - ym) \<le> DBL_MAX"
    and s2: "(xp - x) * (xp - x) + (yp - y) * (yp - y) \<le> DBL_MAX"
  shows "turning_rad (fst (addMaxCurvatureResidual self (Fin w) (Fin x, Fin y) (Fin xp, Fin yp)
            (Fin xm, Fin ym) c r)) = Fin k"
    and "snd (addMaxCurvatureResidual self (Fin w) (Fin x, Fin y) (Fin xp, Fin yp)
            (Fin xm, Fin ym) c r) =
         (if k - kmax \<le> 1 / 10000 then r else r + Fin (w * (k - kmax) * (k - kmax)))"
    and "valid (fst (addMaxCurvatureResidual self (Fin w) (Fin x, Fin y) (Fin xp, Fin yp)
            (Fin xm, Fin ym) c r)) = (valid c \<and> \<not> k - kmax \<le> 1 / 10000)"
    and "delta_phi_i (fst (addMaxCurvatureResidual self (Fin w) (Fin x, Fin y) (Fin xp, Fin yp)
            (Fin xm, Fin ym) c r)) =
          Fin (arccos (clamped (((x - xm) * (xp - x) + (y - ym) * (yp - y)) / (n1 * n2))))"
proof -
  let ?p = "((x - xm) * (xp - x) + (y - ym) * (yp - y)) / (n1 * n2)"
  have pos: "0 < n1" "0 < n2" using n1 n2 by linarith+
  have nz: "n1 \<noteq> 0" "n2 \<noteq> 0" using pos by simp_all
  have b: "- 1 \<le> ?p \<and> ?p \<le> 1"
    using projection_bounds[of "x - xm" "y - ym" "xp - x" "yp - y"] pos
    by (simp add: n1_def n2_def)
  have cb: "- 1 \<le> clamped ?p \<and> clamped ?p \<le> 1"
    using b by (simp add: clamped_def)
  have norms: "norm2d (Fin (x - xm), Fin (y - ym)) = Fin n1"
    "norm2d (Fin (xp - x), Fin (yp - y)) = Fin n2"
    by (simp_all add: norm2d_Fin[OF s1] norm2d_Fin[OF s2] n1_def n2_def)
  have guard: "\<not> n1 * 10000 < 1" "\<not> n2 * 10000 < 1"
    using n1 n2 by simp_all
  note all = addMaxCurvatureResidual_def Let_def minus_Fin norms guard dot_Fin nz b
    fabs_def EPSILON_def isnan_def isinf_def double_arith clamped_def k_def kmax
  show "turning_rad (fst (addMaxCurvatureResidual self (Fin w) (Fin x, Fin y) (Fin xp, Fin yp)
            (Fin xm, Fin ym) c r)) = Fin k"
    by (simp add: all)
  show "snd (addMaxCurvatureResidual self (Fin w) (Fin x, Fin y) (Fin xp, Fin yp)
            (Fin xm, Fin ym) c r) =
         (if k - kmax \<le> 1 / 10000 then r else r + Fin (w * (k - kmax) * (k - kmax)))"
    by (simp add: all)
  show "valid (fst (addMaxCurvatureResidual self (Fin w) (Fin x, Fin y) (Fin xp, Fin yp)
            (Fin xm, Fin ym) c r)) = (valid c \<and> \<not> k - kmax \<le> 1 / 10000)"
    by (simp add: all)
  show "delta_phi_i (fst (addMaxCurvatureResidual self (Fin w) (Fin x, Fin y) (Fin xp, Fin yp)
            (Fin xm, Fin ym) c r)) = Fin (arccos (clamped ?p))"
    by (simp add: all)
qed







lemma sqrt_256th: "sqrt (1 / 256) = 1 / 16"
  by (rule real_sqrt_unique) (simp_all add: power2_eq_square)


lemma max_turning_radius_ctor:
  "max_turning_radius (UnconstrainedSmootherCostFunction_ctor n cm) = Fin 10"
  by (simp add: UnconstrainedSmootherCostFunction_ctor_def double_arith)

lemma small_le_DBL_MAX: "a \<le> 2 ^ 53 \<Longrightarrow> a \<le> DBL_MAX"
  using DBL_MAX_ge by linarith


subsection \<open>The projection handed to acos\<close>

lemma addMaxCurvatureResidual_angle:
  fixes x y xp yp xm ym :: real
  defines "n1 \<equiv> sqrt ((x - xm) * (x - xm) + (y - ym) * (y - ym))"
    and "n2 \<equiv> sqrt ((xp - x) * (xp - x) + (yp - y) * (yp - y))"
  assumes n1: "1 / 10000 \<le> n1" and n2: "1 / 10000 \<le> n2"
    and s1: "(x - xm) * (x - xm) + (y - ym) * (y - ym) \<le> DBL_MAX"
    and s2: "(xp - x) * (xp - x) + (yp - y) * (yp - y) \<le> DBL_MAX"
  shows "delta_phi_i (fst (addMaxCurvatureResidual self weight (Fin x, Fin y) (Fin xp, Fin yp)
            (Fin xm, Fin ym) c r)) =
          Fin (arccos (clamped (((x - xm) * (xp - x) + (y - ym) * (yp - y)) / (n1 * n2))))"
proof -
  let ?p = "((x - xm) * (xp - x) + (y - ym) * (yp - y)) / (n1 * n2)"
  have pos: "0 < n1" "0 < n2" using n1 n2 by linarith+
  have nz: "n1 \<noteq> 0" "n2 \<noteq> 0" using pos by simp_all
  have b: "- 1 \<le> ?p \<and> ?p \<le> 1"
    using projection_bounds[of "x - xm" "y - ym" "xp - x" "yp - y"] pos
    by (simp add: n1_def n2_def)
  have norms: "norm2d (Fin (x - xm), Fin (y - ym)) = Fin n1"
    "norm2d (Fin (xp - x), Fin (yp - y)) = Fin n2"
    by (simp_all add: norm2d_Fin[OF s1] norm2d_Fin[OF s2] n1_def n2_def)
  have guard: "\<not> n1 * 10000 < 1" "\<not> n2 * 10000 < 1"
    using n1 n2 by simp_all
  show ?thesis
    by (simp add: addMaxCurvatureResidual_def Let_def minus_Fin norms guard dot_Fin nz b
      fabs_def EPSILON_def isnan_def isinf_def double_arith clamped_def)
qed

lemma projection_clamp_on_finite_points:
  fixes x y xp yp xm ym :: real
  assumes "1 / 10000 \<le> sqrt ((x - xm) * (x - xm) + (y - ym) * (y - ym))"
    and "1 / 10000 \<le> sqrt ((xp - x) * (xp - x) + (yp - y) * (yp - y))"
    and "(x - xm) * (x - xm) + (y - ym) * (y - ym) \<le> DBL_MAX"
    and "(xp - x) * (xp - x) + (yp - y) * (yp - y) \<le> DBL_MAX"
    and "p = ((x - xm) * (xp - x) + (y - ym) * (yp - y)) /
             (sqrt ((x - xm) * (x - xm) + (y - ym) * (y - ym)) *
              sqrt ((xp - x) * (xp - x) + (yp - y) * (yp - y)))"
  shows "(\<bar>1 - p\<bar> < 1 / 10000 \<longrightarrow>
            delta_phi_i (fst (addMaxCurvatureResidual self weight (Fin x, Fin y) (Fin xp, Fin yp)
              (Fin xm, Fin ym) c r)) = Fin (arccos 1)) \<and>
         (\<bar>p + 1\<bar> < 1 / 10000 \<longrightarrow>
            delta_phi_i (fst (addMaxCurvatureResidual self weight (Fin x, Fin y) (Fin xp, Fin yp)
              (Fin xm, Fin ym) c r)) = Fin (arccos 1)) \<and>
         (\<not> \<bar>1 - p\<bar> < 1 / 10000 \<and> \<not> \<bar>p + 1\<bar> < 1 / 10000 \<longrightarrow>
            delta_phi_i (fst (addMaxCurvatureResidual self weight (Fin x, Fin y) (Fin xp, Fin yp)
              (Fin xm, Fin ym) c r)) = Fin (arccos p))"
  using addMaxCurvatureResidual_angle[OF assms(1) assms(2) assms(3) assms(4),
      of self weight c r, folded assms(5)]
  by (simp add: clamped_def)

text \<open>
  Claim C7, as amended. Take an interior point whose two adjacent segments are not
  degenerate: the test of lines 263 to 265 fails, so both lengths are at least
  \<^verbatim>\<open>EPSILON\<close> and neither is infinite. The normalized dot product of the two segment
  vectors is a finite number \<open>p\<close>. When \<open>p\<close> lies within \<^verbatim>\<open>EPSILON\<close> of 1, and also
  when it lies within \<^verbatim>\<open>EPSILON\<close> of \<open>- 1\<close>, the turning angle is \<open>arccos 1\<close>, that
  is 0: both tests of line 273 lead to the one assignment \<^verbatim>\<open>projection = 1.0\<close>.
  Otherwise the turning angle is \<open>arccos p\<close>.
\<close>

theorem projection_clamped_to_plus_one:
  assumes "\<not> degenerate pt pt_p pt_m"
  shows "\<exists>p. dot (fst pt - fst pt_m, snd pt - snd pt_m) (fst pt_p - fst pt, snd pt_p - snd pt) /
             (norm2d (fst pt - fst pt_m, snd pt - snd pt_m) *
              norm2d (fst pt_p - fst pt, snd pt_p - snd pt)) = Fin p \<and>
         (\<bar>1 - p\<bar> < 1 / 10000 \<longrightarrow>
            delta_phi_i (fst (addMaxCurvatureResidual self weight pt pt_p pt_m c r)) =
              Fin (arccos 1)) \<and>
         (\<bar>p + 1\<bar> < 1 / 10000 \<longrightarrow>
            delta_phi_i (fst (addMaxCurvatureResidual self weight pt pt_p pt_m c r)) =
              Fin (arccos 1)) \<and>
         (\<not> \<bar>1 - p\<bar> < 1 / 10000 \<and> \<not> \<bar>p + 1\<bar> < 1 / 10000 \<longrightarrow>
            delta_phi_i (fst (addMaxCurvatureResidual self weight pt pt_p pt_m c r)) =
              Fin (arccos p))"
proof -
  from nondegenerate_finite[OF assms] obtain x y xp yp xm ym where
    A: "pt = (Fin x, Fin y)" "pt_p = (Fin xp, Fin yp)" "pt_m = (Fin xm, Fin ym)"
       "1 / 10000 \<le> sqrt ((x - xm) * (x - xm) + (y - ym) * (y - ym))"
       "1 / 10000 \<le> sqrt ((xp - x) * (xp - x) + (yp - y) * (yp - y))"
       "(x - xm) * (x - xm) + (y - ym) * (y - ym) \<le> DBL_MAX"
       "(xp - x) * (xp - x) + (yp - y) * (yp - y) \<le> DBL_MAX"
    by blast
  define p where "p = ((x - xm) * (xp - x) + (y - ym) * (yp - y)) /
             (sqrt ((x - xm) * (x - xm) + (y - ym) * (y - ym)) *
              sqrt ((xp - x) * (xp - x) + (yp - y) * (yp - y)))"
  have nz: "sqrt ((x - xm) * (x - xm) + (y - ym) * (y - ym)) \<noteq> 0"
    "sqrt ((xp - x) * (xp - x) + (yp - y) * (yp - y)) \<noteq> 0"
    using A(4,5) by linarith+
  have "dot (fst pt - fst pt_m, snd pt - snd pt_m) (fst pt_p - fst pt, snd pt_p - snd pt) /
             (norm2d (fst pt - fst pt_m, snd pt - snd pt_m) *
              norm2d (fst pt_p - fst pt, snd pt_p - snd pt)) = Fin p"
    using nz unfolding A(1-3) p_def
    by (simp add: minus_Fin dot_Fin norm2d_Fin[OF A(6)] norm2d_Fin[OF A(7)]
        del: real_sqrt_eq_zero_cancel_iff)
  with projection_clamp_on_finite_points[OF A(4) A(5) A(6) A(7) p_def, of self weight c r]
  show ?thesis unfolding A(1-3) by blast
qed

theorem projection_clamped_to_plus_one_witness:
  "\<not> degenerate (Fin 1, Fin 0) (Fin 0, Fin 0) (Fin 0, Fin 0) \<and>
   \<not> degenerate (Fin 1, Fin 0) (Fin 2, Fin 0) (Fin 0, Fin 0) \<and>
   \<not> degenerate (Fin 1, Fin 0) (Fin 1, Fin 1) (Fin 0, Fin 0) \<and>
   \<bar>(- 1 :: real) + 1\<bar> < 1 / 10000 \<and> \<bar>1 - (1 :: real)\<bar> < 1 / 10000 \<and>
   \<not> \<bar>1 - (0 :: real)\<bar> < 1 / 10000 \<and> \<not> \<bar>(0 :: real) + 1\<bar> < 1 / 10000 \<and>
   delta_phi_i (fst (addMaxCurvatureResidual
      (UnconstrainedSmootherCostFunction_ctor 3 example_costmap_outside) 2
      (Fin 1, Fin 0) (Fin 0, Fin 0) (Fin 0, Fin 0)
      (CurvatureComputations_ctor memory_zero) 0)) = Fin (arccos 1) \<and>
   delta_phi_i (fst (addMaxCurvatureResidual
      (UnconstrainedSmootherCostFunction_ctor 3 example_costmap_outside) 2
      (Fin 1, Fin 0) (Fin 2, Fin 0) (Fin 0, Fin 0)
      (CurvatureComputations_ctor memory_zero) 0)) = Fin (arccos 1) \<and>
   delta_phi_i (fst (addMaxCurvatureResidual
      (UnconstrainedSmootherCostFunction_ctor 3 example_costmap_outside) 2
      (Fin 1, Fin 0) (Fin 1, Fin 1) (Fin 0, Fin 0)
      (CurvatureComputations_ctor memory_zero) 0)) = Fin (arccos 0)"
proof -
  let ?self = "UnconstrainedSmootherCostFunction_ctor 3 example_costmap_outside"
  let ?c = "CurvatureComputations_ctor memory_zero"
  note ev = minus_Fin dot_Fin norm2d_def squaredNorm_def overflow_small
  have d1: "\<not> degenerate (Fin 1, Fin 0) (Fin 0, Fin 0) (Fin 0, Fin 0)"
    by (simp add: degenerate_def ev EPSILON_def isnan_def isinf_def)
  have d2: "\<not> degenerate (Fin 1, Fin 0) (Fin 2, Fin 0) (Fin 0, Fin 0)"
    by (simp add: degenerate_def ev EPSILON_def isnan_def isinf_def)
  have d3: "\<not> degenerate (Fin 1, Fin 0) (Fin 1, Fin 1) (Fin 0, Fin 0)"
    by (simp add: degenerate_def ev EPSILON_def isnan_def isinf_def)
  have h1: "\<bar>(- 1 :: real) + 1\<bar> < 1 / 10000" by simp
  have h2: "\<bar>1 - (1 :: real)\<bar> < 1 / 10000" by simp
  have h3: "\<not> \<bar>1 - (0 :: real)\<bar> < 1 / 10000" "\<not> \<bar>(0 :: real) + 1\<bar> < 1 / 10000" by simp_all
  from projection_clamped_to_plus_one[OF d1, of ?self 2 ?c 0]
  obtain p where p:
    "dot (fst (Fin 1, Fin 0) - fst (Fin 0, Fin 0), snd (Fin 1, Fin 0) - snd (Fin 0, Fin 0))
       (fst (Fin 0, Fin 0) - fst (Fin 1, Fin 0), snd (Fin 0, Fin 0) - snd (Fin 1, Fin 0)) /
     (norm2d (fst (Fin 1, Fin 0) - fst (Fin 0, Fin 0), snd (Fin 1, Fin 0) - snd (Fin 0, Fin 0)) *
      norm2d (fst (Fin 0, Fin 0) - fst (Fin 1, Fin 0), snd (Fin 0, Fin 0) - snd (Fin 1, Fin 0))) =
     Fin p"
    "\<bar>p + 1\<bar> < 1 / 10000 \<longrightarrow>
       delta_phi_i (fst (addMaxCurvatureResidual ?self 2
         (Fin 1, Fin 0) (Fin 0, Fin 0) (Fin 0, Fin 0) ?c 0)) = Fin (arccos 1)"
    by blast
  from p(1) have "p = - 1" by (simp add: ev)
  with p(2) h1 have r1: "delta_phi_i (fst (addMaxCurvatureResidual ?self 2
      (Fin 1, Fin 0) (Fin 0, Fin 0) (Fin 0, Fin 0) ?c 0)) = Fin (arccos 1)"
    by simp
  from projection_clamped_to_plus_one[OF d2, of ?self 2 ?c 0]
  obtain q where q:
    "dot (fst (Fin 1, Fin 0) - fst (Fin 0, Fin 0), snd (Fin 1, Fin 0) - snd (Fin 0, Fin 0))
       (fst (Fin 2, Fin 0) - fst (Fin 1, Fin 0), snd (Fin 2, Fin 0) - snd (Fin 1, Fin 0)) /
     (norm2d (fst (Fin 1, Fin 0) - fst (Fin 0, Fin 0), snd (Fin 1, Fin 0) - snd (Fin 0, Fin 0)) *
      norm2d (fst (Fin 2, Fin 0) - fst (Fin 1, Fin 0), snd (Fin 2, Fin 0) - snd (Fin 1, Fin 0))) =
     Fin q"
    "\<bar>1 - q\<bar> < 1 / 10000 \<longrightarrow>
       delta_phi_i (fst (addMaxCurvatureResidual ?self 2
         (Fin 1, Fin 0) (Fin 2, Fin 0) (Fin 0, Fin 0) ?c 0)) = Fin (arccos 1)"
    by blast
  from q(1) have "q = 1" by (simp add: ev)
  with q(2) h2 have r2: "delta_phi_i (fst (addMaxCurvatureResidual ?self 2
      (Fin 1, Fin 0) (Fin 2, Fin 0) (Fin 0, Fin 0) ?c 0)) = Fin (arccos 1)"
    by simp
  from projection_clamped_to_plus_one[OF d3, of ?self 2 ?c 0]
  obtain t where t:
    "dot (fst (Fin 1, Fin 0) - fst (Fin 0, Fin 0), snd (Fin 1, Fin 0) - snd (Fin 0, Fin 0))
       (fst (Fin 1, Fin 1) - fst (Fin 1, Fin 0), snd (Fin 1, Fin 1) - snd (Fin 1, Fin 0)) /
     (norm2d (fst (Fin 1, Fin 0) - fst (Fin 0, Fin 0), snd (Fin 1, Fin 0) - snd (Fin 0, Fin 0)) *
      norm2d (fst (Fin 1, Fin 1) - fst (Fin 1, Fin 0), snd (Fin 1, Fin 1) - snd (Fin 1, Fin 0))) =
     Fin t"
    "\<not> \<bar>1 - t\<bar> < 1 / 10000 \<and> \<not> \<bar>t + 1\<bar> < 1 / 10000 \<longrightarrow>
       delta_phi_i (fst (addMaxCurvatureResidual ?self 2
         (Fin 1, Fin 0) (Fin 1, Fin 1) (Fin 0, Fin 0) ?c 0)) = Fin (arccos t)"
    by blast
  from t(1) have "t = 0" by (simp add: ev)
  with t(2) h3 have r3: "delta_phi_i (fst (addMaxCurvatureResidual ?self 2
      (Fin 1, Fin 0) (Fin 1, Fin 1) (Fin 0, Fin 0) ?c 0)) = Fin (arccos 0)"
    by simp
  from d1 d2 d3 h1 h2 h3 r1 r2 r3 show ?thesis by blast
qed

text \<open>
  The claim as stated fails on a path that doubles back, from \<open>(0, 0)\<close> to \<open>(1, 0)\<close>
  and back to \<open>(0, 0)\<close>: the projection is \<open>- 1\<close> and the code stores the turning
  angle 0, where \<^verbatim>\<open>acos(-1)\<close> is \<open>pi\<close>.
\<close>

theorem reversal_turning_angle_zero:
  "delta_phi_i (fst (addMaxCurvatureResidual
      (UnconstrainedSmootherCostFunction_ctor 3 example_costmap_outside)
      (Wcurve (UnconstrainedSmootherCostFunction_ctor 3 example_costmap_outside))
      (1, 0) (0, 0) (0, 0) (CurvatureComputations_ctor memory_zero) 0)) = 0 \<and>
   dacos (- 1) = Fin pi \<and> Fin pi \<noteq> 0"
proof -
  have h1: "(1 :: real) / 10000 \<le> sqrt ((1 - 0) * (1 - 0) + (0 - 0) * (0 - 0))" by simp
  have h2: "(1 :: real) / 10000 \<le> sqrt ((0 - 1) * (0 - 1) + (0 - 0) * (0 - 0))" by simp
  have s1: "((1 :: real) - 0) * (1 - 0) + (0 - 0) * (0 - 0) \<le> DBL_MAX"
    by (rule small_le_DBL_MAX) simp
  have s2: "((0 :: real) - 1) * (0 - 1) + (0 - 0) * (0 - 0) \<le> DBL_MAX"
    by (rule small_le_DBL_MAX) simp
  from addMaxCurvatureResidual_angle[OF h1 h2 s1 s2,
      of "UnconstrainedSmootherCostFunction_ctor 3 example_costmap_outside"
         "Wcurve (UnconstrainedSmootherCostFunction_ctor 3 example_costmap_outside)"
         "CurvatureComputations_ctor memory_zero" 0]
  have "delta_phi_i (fst (addMaxCurvatureResidual
      (UnconstrainedSmootherCostFunction_ctor 3 example_costmap_outside)
      (Wcurve (UnconstrainedSmootherCostFunction_ctor 3 example_costmap_outside))
      (1, 0) (0, 0) (0, 0) (CurvatureComputations_ctor memory_zero) 0)) = 0"
    by (simp add: clamped_def double_arith)
  moreover have "dacos (- 1) = Fin pi" by (simp add: double_arith)
  moreover have "Fin pi \<noteq> 0" by (simp add: double_arith)
  ultimately show ?thesis by blast
qed

subsection \<open>Evaluating the code on concrete paths\<close>

text \<open>
  Claim C1. The claim does not hold of the code: \<^verbatim>\<open>grad_x_raw\<close> and \<^verbatim>\<open>grad_y_raw\<close>
  are set to zero once, before the loop, and every Jacobian adds to them, so the slots of
  a point hold the sum over all interior points up to it. On the path \<open>(0, 0)\<close>,
  \<open>(1, 0)\<close>, \<open>(3, 0)\<close>, \<open>(4, 0)\<close>, outside the cost map, the slots of the point
  \<open>(3, 0)\<close> hold \<open>(0, 0)\<close>: its own smoothness gradient \<open>800000\<close> and the
  \<open>- 800000\<close> of the point before it. On the path \<open>(1, 0)\<close>, \<open>(3, 0)\<close>, \<open>(4, 0)\<close>,
  where the same point with the same neighbours is the first interior point, its slots
  hold \<open>(800000, 0)\<close>.
\<close>

theorem gradient_slot_accumulates_earlier_points:
  "gradient_out (Evaluate (UnconstrainedSmootherCostFunction_ctor 4 example_costmap_outside)
      nav2_cost_values memory_zero [0, 0, 1, 0, 3, 0, 4, 0] (Some [0, 0, 0, 0, 0, 0, 0, 0])) =
     Some [0, 0, - 800000, 0, 0, 0, 0, 0] \<and>
   gradient_out (Evaluate (UnconstrainedSmootherCostFunction_ctor 3 example_costmap_outside)
      nav2_cost_values memory_zero [1, 0, 3, 0, 4, 0] (Some [0, 0, 0, 0, 0, 0])) =
     Some [0, 0, 800000, 0, 0, 0]"
  by (simp add: Evaluate_unfold memory_zero_def upt_conv_Cons)

text \<open>
  Claim C4. The claim does not hold of the code: the collision term caches its penalty
  with the collision weight (1 in the constructor), and the cost-avoidance term adds the
  cached number where its own formula carries the cost weight (0.2 in the constructor).
  With the cost values of nav2 and the sampled value 253, the reused contribution is
  \<open>- 1\<close> and the formula of the cost-avoidance term gives \<open>- 0.2\<close>.
\<close>

theorem cost_cache_reuse_differs:
  "addCostResidual nav2_cost_values
     (Wcost (UnconstrainedSmootherCostFunction_ctor 3 example_costmap_outside)) (Fin 253)
     (fst (addCollisionResidual nav2_cost_values
        (Wcollision (UnconstrainedSmootherCostFunction_ctor 3 example_costmap_outside)) (Fin 253)
        CostComputations_ctor 0)) 0 = Fin (- 1) \<and>
   addCostResidual nav2_cost_values
     (Wcost (UnconstrainedSmootherCostFunction_ctor 3 example_costmap_outside)) (Fin 253)
     CostComputations_ctor 0 = Fin (- (2 / 10))"
  by (simp add: addCostResidual_def addCollisionResidual_def Let_def nav2_cost_values_def
      UnconstrainedSmootherCostFunction_ctor_def CostComputations_ctor_def feq_def double_arith)

text \<open>
  The same for any finite weights and any value at or above \<^verbatim>\<open>INSCRIBED\<close>: the
  reused contribution carries the collision weight \<open>wc\<close>, the formula the weight \<open>wa\<close>
  of the cost-avoidance term.
\<close>

lemma cost_cache_reuse_general:
  assumes "INSCRIBED cv \<le> v" and "v \<noteq> FREE cv" and "v \<noteq> UNKNOWN cv"
    and "wc \<noteq> 0" and "v \<noteq> MAX_NON_OBSTACLE cv"
  shows "addCostResidual cv (Fin wa) (Fin v)
           (fst (addCollisionResidual cv (Fin wc) (Fin v) p r0)) r =
         r + Fin (- (wc * (v - MAX_NON_OBSTACLE cv)\<^sup>2))"
    and "addCostResidual cv (Fin wa) (Fin v) CostComputations_ctor r =
         r + Fin (- (wa * (v - MAX_NON_OBSTACLE cv)\<^sup>2))"
proof -
  have c: "fst (addCollisionResidual cv (Fin wc) (Fin v) p r0) =
     p\<lparr>cost := Fin (- (wc * (v - MAX_NON_OBSTACLE cv)\<^sup>2))\<rparr>"
    using addCollisionResidual_active[of "INSCRIBED cv" v cv "MAX_NON_OBSTACLE cv" wc p r0] assms(1)
    by simp
  show "addCostResidual cv (Fin wa) (Fin v)
           (fst (addCollisionResidual cv (Fin wc) (Fin v) p r0)) r =
         r + Fin (- (wc * (v - MAX_NON_OBSTACLE cv)\<^sup>2))"
    using assms by (simp add: c addCostResidual_def feq_def double_arith)
  show "addCostResidual cv (Fin wa) (Fin v) CostComputations_ctor r =
         r + Fin (- (wa * (v - MAX_NON_OBSTACLE cv)\<^sup>2))"
    using assms
    by (simp add: addCostResidual_def feq_def double_arith CostComputations_ctor_def
        power2_eq_square algebra_simps)
qed

text \<open>
  Claim C5. The claim does not hold of the code. On the grid of 5 by 5 cells whose only
  cost is 12 at the cell \<open>(0, 2)\<close>, two cells to the left of \<open>(2, 2)\<close>, the stencil of
  the specification gives the unit vector \<open>(1, 0)\<close> at \<open>(2, 2)\<close>. The code returns
  \<open>(0, 0)\<close>: the branch for the cell two below (line 544) assigns \<^verbatim>\<open>left_two\<close>
  instead of \<^verbatim>\<open>down_two\<close>, so the sample of \<open>(0, 2)\<close> is overwritten by the sample
  of \<open>(2, 0)\<close>, and \<^verbatim>\<open>down_two\<close> is never written.
\<close>

theorem getCostmapGradient_misses_left_two:
  "gradx (getCostmapGradient (UnconstrainedSmootherCostFunction_ctor 3 example_costmap_grid) 2 2
      CostComputations_ctor) = 0 \<and>
   grady (getCostmapGradient (UnconstrainedSmootherCostFunction_ctor 3 example_costmap_grid) 2 2
      CostComputations_ctor) = 0 \<and>
   five_point_stencil_spec example_costmap_grid 2 2 = (1, 0)"
  by (simp add: getCostmapGradient_def Let_def example_costmap_grid_def
      UnconstrainedSmootherCostFunction_ctor_def CostComputations_ctor_def
      five_point_stencil_spec_def sample_or_zero_def EPSILON_def double_arith)

text \<open>
  The bounds of lines 522 to 543 also let the code read cells that are not on the grid:
  at the last column \<open>4\<close> of 5 it reads column 5 (\<^verbatim>\<open>mx < sizeX()\<close> guards the read of
  \<^verbatim>\<open>mx + 1\<close>), and at column 0 the unsigned \<^verbatim>\<open>mx - 1\<close> wraps to a positive number
  and the code reads column \<open>4294967294\<close>. With a \<^verbatim>\<open>getCost\<close> that answers 12 there,
  the result changes, where the stencil of the specification reads no such cell.
\<close>

lemma getCostmapGradient_reads_outside_the_grid:
  "grady (getCostmapGradient (UnconstrainedSmootherCostFunction_ctor 3 example_costmap_edge) 4 2
      CostComputations_ctor) = 1 \<and>
   five_point_stencil_spec example_costmap_edge 4 2 = (0, 0) \<and>
   grady (getCostmapGradient (UnconstrainedSmootherCostFunction_ctor 3 example_costmap_edge) 0 1
      CostComputations_ctor) = 1 \<and>
   five_point_stencil_spec example_costmap_edge 0 1 = (0, 0)"
  by (simp add: getCostmapGradient_def Let_def example_costmap_edge_def
      UnconstrainedSmootherCostFunction_ctor_def CostComputations_ctor_def
      five_point_stencil_spec_def sample_or_zero_def EPSILON_def double_arith word_gt_0)

text \<open>
  The first half of claim C6 holds: a coordinate that is NaN or infinite makes the test of
  line 263 hold, and when that test holds the flag is false
  (\<open>addMaxCurvatureResidual_degenerate\<close>).
\<close>

lemma nonfinite_coordinate_degenerate:
  assumes "\<not> (\<exists>x y xp yp xm ym.
             pt = (Fin x, Fin y) \<and> pt_p = (Fin xp, Fin yp) \<and> pt_m = (Fin xm, Fin ym))"
  shows "degenerate pt pt_p pt_m"
  using assms nondegenerate_finite[of pt pt_p pt_m] by blast

text \<open>
  The validity flag of the curvature cache is written by one assignment only,
  \<^verbatim>\<open>valid = false\<close>: once false in a call, it is false at every later point.
\<close>

lemma addMaxCurvatureResidual_valid_stays_false:
  "\<not> valid c \<Longrightarrow> \<not> valid (fst (addMaxCurvatureResidual self w pt pt_p pt_m c r))"
  by (simp add: addMaxCurvatureResidual_def Let_def)

lemma Evaluate_body_curvature_params:
  assumes "\<not> (i < 1 \<or> i \<ge> NumParameters self div 2 - 1)"
  shows "curvature_params (Evaluate_body self cv ps i st) =
     fst (addMaxCurvatureResidual self (Wcurve self)
       (ps ! (2 * i), ps ! (2 * i + 1)) (ps ! (2 * i + 2), ps ! (2 * i + 1 + 2))
       (ps ! (2 * i - 2), ps ! (2 * i + 1 - 2)) (curvature_params st)
       (addSmoothingResidual (Wsmooth self) (ps ! (2 * i), ps ! (2 * i + 1))
          (ps ! (2 * i + 2), ps ! (2 * i + 1 + 2)) (ps ! (2 * i - 2), ps ! (2 * i + 1 - 2))
          (cost_raw st)))"
proof -
  have g: "\<And>x y a b c h s. curvature_params (Evaluate_gradient self cv x y a b c h s) = curvature_params s"
    by (simp add: Evaluate_gradient_def Let_def case_prod_beta split: option.splits)
  have c: "\<And>a b c s. curvature_params (fst (Evaluate_cost self cv a b c s)) =
     fst (addMaxCurvatureResidual self (Wcurve self) a b c (curvature_params s)
       (addSmoothingResidual (Wsmooth self) a b c (cost_raw s)))"
    by (simp add: Evaluate_cost_def Let_def case_prod_beta split: option.splits)
  show ?thesis using assms
    by (simp add: Evaluate_body_def Let_def case_prod_beta g c)
qed

lemma Wcurve_ctor: "Wcurve (UnconstrainedSmootherCostFunction_ctor n cm) = Fin 2"
  by (simp add: UnconstrainedSmootherCostFunction_ctor_def double_arith)

text \<open>
  Claim C6. The claim does not hold of the code for a path with more than one interior
  point: the cost term does not read the flag, and the flag is never set back to true.
  On the path \<open>(0, 0)\<close>, \<open>(1/16, 0)\<close>, \<open>(1/8, 0)\<close>, \<open>(1/8, 1)\<close> the first interior
  point is on a straight line and sets the flag to false. The second is a right-angle
  turn with an incoming segment of length \<open>1/16\<close>: its estimate is \<open>8 * pi\<close>, above the
  maximum 10, and the cost term adds \<open>2 * (8 * pi - 10)\<^sup>2\<close>; the flag it is handed is
  false and stays false, so the Jacobian of the same point adds nothing.
\<close>

theorem stale_valid_flag_cost_without_gradient:
  "valid (fst (addMaxCurvatureResidual
      (UnconstrainedSmootherCostFunction_ctor 4 example_costmap_outside)
      (Wcurve (UnconstrainedSmootherCostFunction_ctor 4 example_costmap_outside))
      (Fin (1 / 16), Fin 0) (Fin (1 / 8), Fin 0) (Fin 0, Fin 0)
      (CurvatureComputations_ctor memory_zero) 0)) = False \<and>
   snd (addMaxCurvatureResidual
      (UnconstrainedSmootherCostFunction_ctor 4 example_costmap_outside)
      (Wcurve (UnconstrainedSmootherCostFunction_ctor 4 example_costmap_outside))
      (Fin (1 / 8), Fin 0) (Fin (1 / 8), Fin 1) (Fin (1 / 16), Fin 0)
      (fst (addMaxCurvatureResidual
        (UnconstrainedSmootherCostFunction_ctor 4 example_costmap_outside)
        (Wcurve (UnconstrainedSmootherCostFunction_ctor 4 example_costmap_outside))
        (Fin (1 / 16), Fin 0) (Fin (1 / 8), Fin 0) (Fin 0, Fin 0)
        (CurvatureComputations_ctor memory_zero) 0)) 0) = Fin (2 * (8 * pi - 10)\<^sup>2) \<and>
   0 < 2 * (8 * pi - 10)\<^sup>2 \<and>
   addMaxCurvatureJacobian
      (UnconstrainedSmootherCostFunction_ctor 4 example_costmap_outside)
      (Wcurve (UnconstrainedSmootherCostFunction_ctor 4 example_costmap_outside))
      (Fin (1 / 8), Fin 0) (Fin (1 / 8), Fin 1) (Fin (1 / 16), Fin 0)
      (fst (addMaxCurvatureResidual
        (UnconstrainedSmootherCostFunction_ctor 4 example_costmap_outside)
        (Wcurve (UnconstrainedSmootherCostFunction_ctor 4 example_costmap_outside))
        (Fin (1 / 8), Fin 0) (Fin (1 / 8), Fin 1) (Fin (1 / 16), Fin 0)
        (fst (addMaxCurvatureResidual
          (UnconstrainedSmootherCostFunction_ctor 4 example_costmap_outside)
          (Wcurve (UnconstrainedSmootherCostFunction_ctor 4 example_costmap_outside))
          (Fin (1 / 16), Fin 0) (Fin (1 / 8), Fin 0) (Fin 0, Fin 0)
          (CurvatureComputations_ctor memory_zero) 0)) 0)) (0, 0) = (0, 0)"
proof -
  let ?self = "UnconstrainedSmootherCostFunction_ctor 4 example_costmap_outside"
  let ?c0 = "CurvatureComputations_ctor memory_zero"
  let ?c1 = "fst (addMaxCurvatureResidual ?self (Fin 2)
      (Fin (1 / 16), Fin 0) (Fin (1 / 8), Fin 0) (Fin 0, Fin 0) ?c0 0)"
  let ?s2 = "addMaxCurvatureResidual ?self (Fin 2)
      (Fin (1 / 8), Fin 0) (Fin (1 / 8), Fin 1) (Fin (1 / 16), Fin 0) ?c1 0"
  have km: "max_turning_radius ?self = Fin 10" by (rule max_turning_radius_ctor)
  have a1: "(1 :: real) / 10000 \<le> sqrt ((1 / 16 - 0) * (1 / 16 - 0) + (0 - 0) * (0 - 0))"
    by (simp add: sqrt_256th)
  have a2: "(1 :: real) / 10000 \<le> sqrt ((1 / 8 - 1 / 16) * (1 / 8 - 1 / 16) + (0 - 0) * (0 - 0))"
    by (simp add: sqrt_256th)
  have a3: "(1 :: real) / 10000 \<le> sqrt ((1 / 8 - 1 / 8) * (1 / 8 - 1 / 8) + (1 - 0) * (1 - 0))"
    by simp
  have b1: "((1 :: real) / 16 - 0) * (1 / 16 - 0) + (0 - 0) * (0 - 0) \<le> DBL_MAX"
    by (rule small_le_DBL_MAX) simp
  have b2: "((1 :: real) / 8 - 1 / 16) * (1 / 8 - 1 / 16) + (0 - 0) * (0 - 0) \<le> DBL_MAX"
    by (rule small_le_DBL_MAX) simp
  have b3: "((1 :: real) / 8 - 1 / 8) * (1 / 8 - 1 / 8) + (1 - 0) * (1 - 0) \<le> DBL_MAX"
    by (rule small_le_DBL_MAX) simp
  have p: "10 + 1 / 10000 < 8 * pi" using pi_ge_two by simp
  have v1: "valid ?c1 = False"
    using addMaxCurvatureResidual_finite(3)[OF km a1 a2 b1 b2, of 2 ?c0 0]
    by (simp add: sqrt_256th clamped_def)
  have r2: "snd ?s2 = Fin (2 * (8 * pi - 10)\<^sup>2)"
    using addMaxCurvatureResidual_finite(2)[OF km a2 a3 b2 b3, of 2 ?c1 0] p
    by (simp add: sqrt_256th clamped_def double_arith power2_eq_square)
  have v2: "valid (fst ?s2) = False"
    using addMaxCurvatureResidual_finite(3)[OF km a2 a3 b2 b3, of 2 ?c1 0] v1
    by simp
  have j: "addMaxCurvatureJacobian ?self (Fin 2)
      (Fin (1 / 8), Fin 0) (Fin (1 / 8), Fin 1) (Fin (1 / 16), Fin 0) (fst ?s2) (0, 0) = (0, 0)"
    using v2 by (simp add: addMaxCurvatureJacobian_def isValid_def)
  have pos: "0 < 2 * (8 * pi - 10)\<^sup>2" using p by simp
  from v1 r2 pos j show ?thesis by (simp only: Wcurve_ctor)
qed

text \<open>
  A point that coincides with the point before it: the curvature-limit term adds nothing
  and sets the flag to false, and it returns before it writes \<^verbatim>\<open>turning_rad\<close>, which
  keeps what the cache held.
\<close>

lemma addMaxCurvatureResidual_coincident:
  "snd (addMaxCurvatureResidual self w (Fin x, Fin y) pt_p (Fin x, Fin y) c r) = r \<and>
   \<not> valid (fst (addMaxCurvatureResidual self w (Fin x, Fin y) pt_p (Fin x, Fin y) c r)) \<and>
   turning_rad (fst (addMaxCurvatureResidual self w (Fin x, Fin y) pt_p (Fin x, Fin y) c r)) =
     turning_rad c"
  by (simp add: addMaxCurvatureResidual_def Let_def norm2d_def squaredNorm_def overflow_small
      EPSILON_def double_arith)

text \<open>
  Claim C9. The part of the claim about the curvature-limit term holds (the lemma above).
  The rest does not hold of the code: on the path \<open>(0, 0)\<close>, \<open>(0, 0)\<close>, \<open>(1, 0)\<close> the
  curvature-change term reads \<^verbatim>\<open>turning_rad\<close>, which nothing has written since the
  cache was constructed, and the constructor writes \<^verbatim>\<open>valid\<close> only. When that memory
  holds NaN, the cost is NaN and the two gradient slots of the middle point are NaN.
\<close>

theorem degenerate_path_cost_not_finite:
  "cost_out (Evaluate (UnconstrainedSmootherCostFunction_ctor 3 example_costmap_outside)
      nav2_cost_values memory_nan [0, 0, 0, 0, 1, 0] (Some [0, 0, 0, 0, 0, 0])) = NaN \<and>
   gradient_out (Evaluate (UnconstrainedSmootherCostFunction_ctor 3 example_costmap_outside)
      nav2_cost_values memory_nan [0, 0, 0, 0, 1, 0] (Some [0, 0, 0, 0, 0, 0])) =
     Some [0, 0, NaN, NaN, 0, 0]"
  by (simp add: Evaluate_unfold memory_nan_def upt_conv_Cons)

text \<open>With zeros in that memory the cost of the same path is the smoothness term alone.\<close>

lemma degenerate_path_cost_zero_memory:
  "cost_out (Evaluate (UnconstrainedSmootherCostFunction_ctor 3 example_costmap_outside)
      nav2_cost_values memory_zero [0, 0, 0, 0, 1, 0] (Some [0, 0, 0, 0, 0, 0])) = 200000"
  by (simp add: Evaluate_unfold memory_zero_def upt_conv_Cons)

end
